theory Spec2Isabelle
  imports Complex_Main "HOL-Library.Word"
begin

section \<open>Numbers\<close>

text \<open>
  JavaScript numbers are modelled as HOL reals: rounding of IEEE doubles (and of the
  Float32Array buffers) is not modelled. Where the source can produce the value NaN
  (reading past the end of an array, dividing 0 by 0, arithmetic on \<open>undefined\<close>) the
  model says so with an option: \<open>None\<close> is NaN.
\<close>

section \<open>AudioAnalyzer (src/src/main.js, the class with beat detection)\<close>

record AudioAnalyzer =
  analyser :: bool
  audioElement :: bool
  isPlaying :: bool
  bufferLength :: nat
  bass :: real
  mid :: real
  treble :: real
  beatThreshold :: real
  beatDecay :: real
  beatMinInterval :: real
  lastBeatTime :: real
  beatEnergy :: real
  isBeat :: bool
  energyHistory :: "real list"
  energyHistoryMax :: nat
  smoothing :: real

text \<open>
  The constructor. \<open>analyser\<close> and \<open>audioElement\<close> say whether the AnalyserNode and the
  audio element exist (both are null here); \<open>bufferLength\<close> is null, here 0.
\<close>

definition AudioAnalyzer_constructor :: AudioAnalyzer where
  "AudioAnalyzer_constructor =
     \<lparr> analyser = False, audioElement = False, isPlaying = False, bufferLength = 0,
       bass = 0, mid = 0, treble = 0,
       beatThreshold = 45 / 100, beatDecay = 98 / 100, beatMinInterval = 200,
       lastBeatTime = 0, beatEnergy = 0, isBeat = False,
       energyHistory = [], energyHistoryMax = 60, smoothing = 82 / 100 \<rparr>"

text \<open>
  \<open>loadAudio\<close> makes a new audio element and creates the analyser once, with
  \<open>fftSize = 512\<close>, so that \<open>frequencyBinCount\<close> is 256 (the state once its promise has
  resolved); \<open>play\<close> and \<open>pause\<close> set the playing flag when there is an audio element.
\<close>

definition loadAudio :: "AudioAnalyzer \<Rightarrow> AudioAnalyzer" where
  "loadAudio a =
     (let a1 = a\<lparr>audioElement := True\<rparr>
      in if \<not> analyser a1 then a1\<lparr>analyser := True, bufferLength := 256\<rparr> else a1)"

definition play :: "AudioAnalyzer \<Rightarrow> AudioAnalyzer" where
  "play a = (if \<not> audioElement a then a else a\<lparr>isPlaying := True\<rparr>)"

definition pause :: "AudioAnalyzer \<Rightarrow> AudioAnalyzer" where
  "pause a = (if \<not> audioElement a then a else a\<lparr>isPlaying := False\<rparr>)"

text \<open>
  \<open>_detectBeat(energy)\<close>; \<open>now\<close> is the value \<open>performance.now()\<close> returns in the call.
  The history is pushed and, when longer than \<open>energyHistoryMax\<close>, shifted. The average is
  0/0 = NaN on an empty history (possible only when \<open>energyHistoryMax\<close> is 0); every
  comparison with NaN is false.
\<close>

definition pushHistory :: "AudioAnalyzer \<Rightarrow> real \<Rightarrow> real list" where
  "pushHistory a energy =
     (let h = energyHistory a @ [energy]
      in if length h > energyHistoryMax a then tl h else h)"

definition historyAvg :: "real list \<Rightarrow> real option" where
  "historyAvg h = (if h = [] then None else Some (foldl (+) 0 h / real (length h)))"

definition adaptiveThreshold :: "AudioAnalyzer \<Rightarrow> real list \<Rightarrow> real option" where
  "adaptiveThreshold a h =
     (case historyAvg h of None \<Rightarrow> None | Some avg \<Rightarrow> Some (max (beatThreshold a) (avg * (14 / 10))))"

definition detectBeat :: "AudioAnalyzer \<Rightarrow> real \<Rightarrow> real \<Rightarrow> AudioAnalyzer" where
  "detectBeat a energy now =
     (let h = pushHistory a energy;
          a1 = a\<lparr>energyHistory := h\<rparr>;
          a2 = (if (case adaptiveThreshold a1 h of None \<Rightarrow> False | Some thr \<Rightarrow> energy > thr)
                   \<and> energy > beatEnergy a1
                   \<and> now - lastBeatTime a1 > beatMinInterval a1
                then a1\<lparr>isBeat := True, lastBeatTime := now\<rparr>
                else a1\<lparr>isBeat := False\<rparr>)
      in a2\<lparr>beatEnergy := energy * beatDecay a2\<rparr>)"

text \<open>
  \<open>_bandAverage(start, end)\<close> over the byte spectrum \<open>dataArray\<close>. A read past the end of
  the Uint8Array gives \<open>undefined\<close> and the sum becomes NaN; an empty band divides 0 by 0.
\<close>

definition byteAt :: "8 word list \<Rightarrow> nat \<Rightarrow> real option" where
  "byteAt dataArray i = (if i < length dataArray then Some (real (unat (dataArray ! i))) else None)"

definition bandBins :: "nat \<Rightarrow> nat \<Rightarrow> nat list" where
  "bandBins start end' = [start..<end']"

definition addBin :: "8 word list \<Rightarrow> nat \<Rightarrow> real option \<Rightarrow> real option" where
  "addBin dataArray i partial =
     (case partial of None \<Rightarrow> None
      | Some acc \<Rightarrow> (case byteAt dataArray i of None \<Rightarrow> None | Some b \<Rightarrow> Some (acc + b)))"

definition bandAverage :: "8 word list \<Rightarrow> nat \<Rightarrow> nat \<Rightarrow> real option" where
  "bandAverage dataArray start end' =
     (case fold (addBin dataArray) (bandBins start end') (Some 0) of
        None \<Rightarrow> None
      | Some tot \<Rightarrow>
          if end' = start then None
          else Some (tot / (real_of_int (int end' - int start)) / 255))"

definition bassEnd :: nat where "bassEnd = 7"
definition midEnd :: nat where "midEnd = 41"
definition trebleEnd :: "nat \<Rightarrow> nat" where "trebleEnd bufLen = min 128 bufLen"

text \<open>
  \<open>update()\<close>. \<open>dataArray\<close> is the spectrum \<open>getByteFrequencyData\<close> wrote in this frame
  (its length is \<open>bufferLength\<close>), \<open>now\<close> the clock read by \<open>_detectBeat\<close>. The result is
  \<open>None\<close> when a band average is NaN: the real-valued state cannot hold it.
\<close>

definition update :: "AudioAnalyzer \<Rightarrow> 8 word list \<Rightarrow> real \<Rightarrow> AudioAnalyzer option" where
  "update a dataArray now =
     (if \<not> analyser a \<or> \<not> isPlaying a then Some (a\<lparr>isBeat := False\<rparr>)
      else
        case bandAverage dataArray 0 bassEnd of None \<Rightarrow> None | Some rawBass \<Rightarrow>
        case bandAverage dataArray bassEnd midEnd of None \<Rightarrow> None | Some rawMid \<Rightarrow>
        case bandAverage dataArray midEnd (trebleEnd (bufferLength a)) of None \<Rightarrow> None | Some rawTreble \<Rightarrow>
          (let s = smoothing a;
               a1 = a\<lparr> bass := bass a * s + rawBass * (1 - s),
                        mid := mid a * s + rawMid * (1 - s),
                        treble := treble a * s + rawTreble * (1 - s) \<rparr>
           in Some (detectBeat a1 rawBass now)))"

text \<open>
  The frames of a run, as the animation loop produces them: \<open>detectBeatRun\<close> feeds the
  detector one (energy, clock) pair per frame and lists the state after each frame;
  \<open>updateRun\<close> does the same for \<open>update\<close> with one (spectrum, clock) pair per frame.
\<close>

fun detectBeatRun :: "AudioAnalyzer \<Rightarrow> (real \<times> real) list \<Rightarrow> AudioAnalyzer list" where
  "detectBeatRun a [] = []"
| "detectBeatRun a ((energy, now) # frames) =
     detectBeat a energy now # detectBeatRun (detectBeat a energy now) frames"

fun updateRun :: "AudioAnalyzer \<Rightarrow> (8 word list \<times> real) list \<Rightarrow> AudioAnalyzer option" where
  "updateRun a [] = Some a"
| "updateRun a ((dataArray, now) # frames) =
     (case update a dataArray now of None \<Rightarrow> None | Some a' \<Rightarrow> updateRun a' frames)"


text \<open>The three bands \<open>update\<close> averages, as the bin indices the loops of \<open>_bandAverage\<close> visit.\<close>

definition bassBins :: "nat list" where
  "bassBins = bandBins 0 bassEnd"

definition midBins :: "nat list" where
  "midBins = bandBins bassEnd midEnd"

definition trebleBins :: "nat \<Rightarrow> nat list" where
  "trebleBins bufLen = bandBins midEnd (trebleEnd bufLen)"

text \<open>
  The band energy of the glossary: the mean of the bytes of a list of bins, scaled to
  [0,1].
\<close>

definition bandMean :: "8 word list \<Rightarrow> nat list \<Rightarrow> real" where
  "bandMean dataArray bins =
     (\<Sum>i\<leftarrow>bins. real (unat (dataArray ! i))) / real (length bins) / 255"

section \<open>Inline 3D noise (src/unnamed/part_000, the ParticleSystem with shader morphing)\<close>

definition p0 :: "nat list" where
  "p0 = [
      151, 160, 137, 91, 90, 15, 131, 13, 201, 95, 96, 53, 194, 233, 7, 225,
      140, 36, 103, 30, 69, 142, 8, 99, 37, 240, 21, 10, 23, 190, 6, 148,
      247, 120, 234, 75, 0, 26, 197, 62, 94, 252, 219, 203, 117, 35, 11, 32,
      57, 177, 33, 88, 237, 149, 56, 87, 174, 20, 125, 136, 171, 168, 68, 175,
      74, 165, 71, 134, 139, 48, 27, 166, 77, 146, 158, 231, 83, 111, 229, 122,
      60, 211, 133, 230, 220, 105, 92, 41, 55, 46, 245, 40, 244, 102, 143, 54,
      65, 25, 63, 161, 1, 216, 80, 73, 209, 76, 132, 187, 208, 89, 18, 169,
      200, 196, 135, 130, 116, 188, 159, 86, 164, 100, 109, 198, 173, 186, 3, 64,
      52, 217, 226, 250, 124, 123, 5, 202, 38, 147, 118, 126, 255, 82, 85, 212,
      207, 206, 59, 227, 47, 16, 58, 17, 182, 189, 28, 42, 223, 183, 170, 213,
      119, 248, 152, 2, 44, 154, 163, 70, 221, 153, 101, 155, 167, 43, 172, 9,
      129, 22, 39, 253, 19, 98, 108, 110, 79, 113, 224, 232, 178, 185, 112, 104,
      218, 246, 97, 228, 251, 34, 242, 193, 238, 210, 144, 12, 191, 179, 162, 241,
      81, 51, 145, 235, 249, 14, 239, 107, 49, 192, 214, 31, 181, 199, 106, 157,
      184, 84, 204, 176, 115, 121, 50, 45, 127, 4, 150, 254, 138, 236, 205, 93,
      222, 114, 67, 29, 24, 72, 243, 141, 128, 195, 78, 66, 215, 61, 156, 180]"

text \<open>\<open>_p\<close> holds the table twice; \<open>_perm[i] = _p[i] & 255\<close>, on bytes.\<close>

definition p_tab :: "nat list" where
  "p_tab = p0 @ p0"

definition perm :: "nat \<Rightarrow> nat" where
  "perm i = (p_tab ! i) mod 256"

definition fade :: "real \<Rightarrow> real" where
  "fade t = t * t * t * (t * (t * 6 - 15) + 10)"

definition lerp :: "real \<Rightarrow> real \<Rightarrow> real \<Rightarrow> real" where
  "lerp a b t = a + t * (b - a)"

definition grad3 :: "nat \<Rightarrow> real \<Rightarrow> real \<Rightarrow> real \<Rightarrow> real" where
  "grad3 hash x y z =
     (let h = hash mod 16;
          u = (if h < 8 then x else y);
          v = (if h < 4 then y else if h = 12 \<or> h = 14 then x else z)
      in (if h mod 2 = 0 then u else - u) + (if (h div 2) mod 2 = 0 then v else - v))"

text \<open>\<open>Math.floor(x) & 255\<close> is the low byte of the floor.\<close>

definition floor255 :: "real \<Rightarrow> nat" where
  "floor255 x = nat (\<lfloor>x\<rfloor> mod 256)"

definition noise3D :: "real \<Rightarrow> real \<Rightarrow> real \<Rightarrow> real" where
  "noise3D x0 y0 z0 =
     (let X = floor255 x0; Y = floor255 y0; Z = floor255 z0;
          x = x0 - real_of_int \<lfloor>x0\<rfloor>;
          y = y0 - real_of_int \<lfloor>y0\<rfloor>;
          z = z0 - real_of_int \<lfloor>z0\<rfloor>;
          u = fade x; v = fade y; w = fade z;
          A = perm X + Y; AA = perm A + Z; AB = perm (A + 1) + Z;
          B = perm (X + 1) + Y; BA = perm B + Z; BB = perm (B + 1) + Z
      in lerp
           (lerp
              (lerp (grad3 (perm AA) x y z) (grad3 (perm BA) (x - 1) y z) u)
              (lerp (grad3 (perm AB) x (y - 1) z) (grad3 (perm BB) (x - 1) (y - 1) z) u)
              v)
           (lerp
              (lerp (grad3 (perm (AA + 1)) x y (z - 1)) (grad3 (perm (BA + 1)) (x - 1) y (z - 1)) u)
              (lerp (grad3 (perm (AB + 1)) x (y - 1) (z - 1))
                    (grad3 (perm (BB + 1)) (x - 1) (y - 1) (z - 1)) u)
              v)
           w)"

section \<open>ParticleSystem (src/unnamed/part_000, the class with per-particle morph factors)\<close>

text \<open>
  The typed arrays are lists of reals; \<open>particles\<close> and \<open>model\<close> say whether the object
  is non-null, \<open>particleCount\<close> is \<open>settings.particleCount\<close>. \<open>positions\<close>, \<open>colors\<close>,
  \<open>sizes\<close> and \<open>morphFactors\<close> are the arrays behind the geometry attributes
  \<open>position\<close>, \<open>aOrigColor\<close>, \<open>aSize\<close> and \<open>aMorphFactor\<close>; \<open>originalColors\<close>,
  \<open>targetPositions\<close> and \<open>velocities\<close> are separate arrays (filled by copying), so no
  two fields alias. The \<open>needsUpdate\<close> flags of the renderer are not modelled.
\<close>

record ParticleSystem =
  particles :: bool
  particleCount :: nat
  positions :: "real list"
  scatterPositions :: "real list"
  targetPositions :: "real list"
  colors :: "real list"
  originalColors :: "real list"
  sizes :: "real list"
  morphFactors :: "real list"
  velocities :: "real list"
  morphTarget :: real
  morphSpeed :: real
  autoMorphOnBeat :: bool
  morphDirection :: real
  morphPauseFrames :: int
  model :: bool
  modelVertices :: "real list"
  time :: real
  uAudioScale :: real
  uTime :: real
  rotation_y :: real

text \<open>
  The argument of \<open>update\<close>. The fields \<open>bass\<close>, \<open>mid\<close>, \<open>treble\<close> and \<open>isBeat\<close> of
  the source's \<open>audioData\<close> carry the prefix \<open>ad_\<close> here (the analyser's record has the
  plain names); \<open>frequencyData\<close> is \<open>None\<close> for null.
\<close>

record audioData =
  audioLevel :: real
  frequencyData :: "8 word list option"
  ad_bass :: real
  ad_mid :: real
  ad_treble :: real
  ad_isBeat :: bool
  reactivity :: real
  attenuation :: real
  turbulence :: real
  bloomIntensity :: real

text \<open>
  \<open>_buildTargetPositions()\<close>. \<open>rv i\<close> is the draw of \<open>Math.random()\<close> that picks the
  vertex for particle \<open>i\<close>; \<open>rx i\<close>, \<open>ry i\<close>, \<open>rz i\<close> are its three jitter draws.
\<close>

definition buildTarget :: "(nat \<Rightarrow> real) \<Rightarrow> (nat \<Rightarrow> real) \<Rightarrow> (nat \<Rightarrow> real) \<Rightarrow> (nat \<Rightarrow> real)
    \<Rightarrow> real list \<Rightarrow> nat \<Rightarrow> real list \<Rightarrow> real list" where
  "buildTarget rv rx ry rz verts i tp =
     (let i3 = i * 3;
          vertCount = real (length verts) / 3;
          vi = nat \<lfloor>rv i * vertCount\<rfloor>;
          jitter = 3 / 100;
          tp1 = tp[i3 := verts ! (vi * 3) + (rx i - 1 / 2) * jitter];
          tp2 = tp1[i3 + 1 := verts ! (vi * 3 + 1) + (ry i - 1 / 2) * jitter]
      in tp2[i3 + 2 := verts ! (vi * 3 + 2) + (rz i - 1 / 2) * jitter])"

definition buildTargetPositions :: "(nat \<Rightarrow> real) \<Rightarrow> (nat \<Rightarrow> real) \<Rightarrow> (nat \<Rightarrow> real) \<Rightarrow> (nat \<Rightarrow> real)
    \<Rightarrow> ParticleSystem \<Rightarrow> ParticleSystem" where
  "buildTargetPositions rv rx ry rz ps =
     (let count = particleCount ps; verts = modelVertices ps
      in if length verts = 0 then ps
         else ps\<lparr>targetPositions :=
                   fold (buildTarget rv rx ry rz verts) [0..<count] (targetPositions ps)\<rparr>)"

definition setMorphSpeed :: "real \<Rightarrow> ParticleSystem \<Rightarrow> ParticleSystem" where
  "setMorphSpeed speed ps = ps\<lparr>morphSpeed := speed\<rparr>"

definition toggleMorph :: "ParticleSystem \<Rightarrow> ParticleSystem" where
  "toggleMorph ps = ps\<lparr>morphDirection := morphDirection ps * (- 1)\<rparr>"

text \<open>
  The boundary test of the loop: \<open>dist > 8\<close> for
  \<open>dist = Math.sqrt(x ** 2 + y ** 2 + z ** 2)\<close>.
\<close>

definition beyondBoundary :: "real \<Rightarrow> real \<Rightarrow> real \<Rightarrow> bool" where
  "beyondBoundary x y z = (sqrt (x\<^sup>2 + y\<^sup>2 + z\<^sup>2) > 8)"

text \<open>
  One pass of the particle loop of \<open>update\<close>, for particle \<open>i\<close>; \<open>rnd i\<close> is the draw of
  \<open>Math.random()\<close> in its size. An index read of \<open>frequencyData\<close> that is
  \<open>undefined\<close> counts as 0 (\<open>|| 0\<close>).
\<close>

definition updateParticle :: "audioData \<Rightarrow> (nat \<Rightarrow> real) \<Rightarrow> nat \<Rightarrow> ParticleSystem \<Rightarrow> ParticleSystem" where
  "updateParticle ad rnd i ps =
     (let i3 = i * 3;
          count = particleCount ps;
          morphGoal = (if morphDirection ps > 0 then 1 else 0);
          m = morphFactors ps ! i;
          morphs = (morphFactors ps)[i := m + (morphGoal - m) * morphSpeed ps];
          noiseScale = 4 / 10;
          timeScale = 3 / 10;
          turbulenceStrength = turbulence ad * (1 + ad_treble ad * reactivity ad * 2);
          sp = scatterPositions ps;
          nx = noise3D (sp ! i3 * noiseScale + time ps * timeScale)
                       (sp ! (i3 + 1) * noiseScale)
                       (sp ! (i3 + 2) * noiseScale) * turbulenceStrength * (1 / 100);
          ny = noise3D (sp ! i3 * noiseScale)
                       (sp ! (i3 + 1) * noiseScale + time ps * timeScale)
                       (sp ! (i3 + 2) * noiseScale) * turbulenceStrength * (1 / 100);
          nz = noise3D (sp ! i3 * noiseScale)
                       (sp ! (i3 + 1) * noiseScale)
                       (sp ! (i3 + 2) * noiseScale + time ps * timeScale) * turbulenceStrength * (1 / 100);
          sp1 = sp[i3 := sp ! i3 + (velocities ps ! i3 + nx)];
          sp2 = sp1[i3 + 1 := sp1 ! (i3 + 1) + (velocities ps ! (i3 + 1) + ny)];
          sp3 = sp2[i3 + 2 := sp2 ! (i3 + 2) + (velocities ps ! (i3 + 2) + nz)];
          pull = 1 / 100;
          sp4 = (if beyondBoundary (sp3 ! i3) (sp3 ! (i3 + 1)) (sp3 ! (i3 + 2))
                 then (let q1 = sp3[i3 := sp3 ! i3 * (1 - pull)];
                           q2 = q1[i3 + 1 := q1 ! (i3 + 1) * (1 - pull)]
                       in q2[i3 + 2 := q2 ! (i3 + 2) * (1 - pull)])
                 else sp3);
          pos = ((positions ps)[i3 := sp4 ! i3, i3 + 1 := sp4 ! (i3 + 1), i3 + 2 := sp4 ! (i3 + 2)]);
          oc = originalColors ps;
          cs = colors ps;
          cols = (case frequencyData ad of
                    Some fd \<Rightarrow>
                      (let freqIndex = nat \<lfloor>(real i / real count) * real (length fd)\<rfloor>;
                           freqValue = (if freqIndex < length fd then real (unat (fd ! freqIndex)) else 0) / 255;
                           colorBoost = 1 + freqValue * reactivity ad * (6 / 10) + ad_mid ad * reactivity ad * (4 / 10)
                       in cs[i3 := min (oc ! i3 * colorBoost) (15 / 10),
                             i3 + 1 := min (oc ! (i3 + 1) * colorBoost) (15 / 10),
                             i3 + 2 := min (oc ! (i3 + 2) * colorBoost) (15 / 10)])
                  | None \<Rightarrow>
                      cs[i3 := cs ! i3 * attenuation ad + oc ! i3 * (1 - attenuation ad),
                         i3 + 1 := cs ! (i3 + 1) * attenuation ad + oc ! (i3 + 1) * (1 - attenuation ad),
                         i3 + 2 := cs ! (i3 + 2) * attenuation ad + oc ! (i3 + 2) * (1 - attenuation ad)]);
          basePulse = 1 + ad_bass ad * reactivity ad * (8 / 10)
      in ps\<lparr> morphFactors := morphs, scatterPositions := sp4, positions := pos, colors := cols,
              sizes := (sizes ps)[i := (7 / 10 + rnd i * (5 / 100)) * basePulse] \<rparr>)"

text \<open>\<open>update(audioData)\<close>: the uniforms, the beat-triggered flip, the loop, the rotation.\<close>

definition ParticleSystem_update :: "audioData \<Rightarrow> (nat \<Rightarrow> real) \<Rightarrow> ParticleSystem \<Rightarrow> ParticleSystem" where
  "ParticleSystem_update ad rnd ps =
     (if \<not> particles ps then ps
      else
        let ps1 = ps\<lparr>time := time ps + 16 / 1000\<rparr>;
            count = particleCount ps1;
            normalizedAudio = audioLevel ad / 255;
            ps2 = ps1\<lparr>uAudioScale := 1 + normalizedAudio * reactivity ad * (1 / 2), uTime := time ps1\<rparr>;
            ps3 = (if ad_isBeat ad \<and> autoMorphOnBeat ps2 \<and> morphPauseFrames ps2 \<le> 0
                   then ps2\<lparr>morphDirection := morphDirection ps2 * (- 1), morphPauseFrames := 15\<rparr>
                   else ps2);
            ps4 = (if morphPauseFrames ps3 > 0
                   then ps3\<lparr>morphPauseFrames := morphPauseFrames ps3 - 1\<rparr> else ps3);
            ps5 = fold (updateParticle ad rnd) [0..<count] ps4
        in ps5\<lparr>rotation_y := rotation_y ps5 + (8 / 10000) * (1 + normalizedAudio * (1 / 2))\<rparr>)"

text \<open>
  Successive frames: one (audioData, random draws) pair per tick of the animation loop.
\<close>

fun ParticleSystem_ticks :: "(audioData \<times> (nat \<Rightarrow> real)) list \<Rightarrow> ParticleSystem \<Rightarrow> ParticleSystem" where
  "ParticleSystem_ticks [] ps = ps"
| "ParticleSystem_ticks ((ad, rnd) # frames) ps = ParticleSystem_ticks frames (ParticleSystem_update ad rnd ps)"



section \<open>ParticleSystem (src/src/ParticleSystem.js, the plexus version)\<close>

subsection \<open>Curl noise\<close>

text \<open>
  \<open>noise3D\<close> of this file is made by \<open>createNoise3D()\<close> of the package simplex-noise,
  which is not part of the repository: the noise field is a parameter (a function into
  the reals, so every noise value is a finite number). \<open>Vector3\<close> is three.js's vector,
  not part of the repository either; its methods are modelled as three.js defines them:
  \<open>length()\<close> is \<open>Math.sqrt(x * x + y * y + z * z)\<close>, \<open>divideScalar(s)\<close> is
  \<open>multiplyScalar(1 / s)\<close>, and \<open>normalize()\<close> is \<open>divideScalar(length() || 1)\<close>.

  In \<open>divideScalar(0)\<close> the factor \<open>1 / 0\<close> is \<open>Infinity\<close>, and every component
  becomes NaN (a component 0) or an infinity (any other component): no component of the
  result is a finite number. That result is \<open>None\<close> here; \<open>Some v\<close> is a vector whose
  components are all finite.
\<close>

datatype Vector3 = Vector3 (vx: real) (vy: real) (vz: real)

definition vlength :: "Vector3 \<Rightarrow> real" where
  "vlength v = sqrt (vx v * vx v + vy v * vy v + vz v * vz v)"

definition divideScalar :: "Vector3 \<Rightarrow> real \<Rightarrow> Vector3 option" where
  "divideScalar v s =
     (if s = 0 then None
      else Some (Vector3 (vx v * (1 / s)) (vy v * (1 / s)) (vz v * (1 / s))))"

text \<open>\<open>length() || 1\<close>: the length 0 is falsy and is replaced by 1.\<close>

definition normalize :: "Vector3 \<Rightarrow> Vector3 option" where
  "normalize v = divideScalar v (if vlength v = 0 then 1 else vlength v)"

text \<open>The vector \<open>v\<close> of \<open>curlNoise(p)\<close> before it is normalized, and \<open>curlNoise\<close> itself.\<close>

definition curlVector :: "(real \<Rightarrow> real \<Rightarrow> real \<Rightarrow> real) \<Rightarrow> Vector3 \<Rightarrow> Vector3" where
  "curlVector noise p =
     (let e = 1 / 10;
          p_x0 = noise (vx p - e) (vy p) (vz p);
          p_x1 = noise (vx p + e) (vy p) (vz p);
          p_y0 = noise (vx p) (vy p - e) (vz p);
          p_y1 = noise (vx p) (vy p + e) (vz p);
          p_z0 = noise (vx p) (vy p) (vz p - e);
          p_z1 = noise (vx p) (vy p) (vz p + e);
          x = p_y1 - p_y0 - (p_z1 - p_z0);
          y = p_z1 - p_z0 - (p_x1 - p_x0);
          z = p_x1 - p_x0 - (p_y1 - p_y0)
      in Vector3 x y z)"

definition curlNoise :: "(real \<Rightarrow> real \<Rightarrow> real \<Rightarrow> real) \<Rightarrow> Vector3 \<Rightarrow> Vector3 option" where
  "curlNoise noise p = normalize (curlVector noise p)"

text \<open>A noise field used as a concrete input below: it grows linearly along the y axis.\<close>

definition rampNoise :: "real \<Rightarrow> real \<Rightarrow> real \<Rightarrow> real" where
  "rampNoise x y z = y / 1000000"

definition flatNoise :: "real \<Rightarrow> real \<Rightarrow> real \<Rightarrow> real" where
  "flatNoise x y z = 1 / 2"

subsection \<open>Morph state\<close>

text \<open>
  The morph part of the object's state. A number that can be NaN is a \<open>real option\<close>
  (\<open>None\<close> is NaN). \<open>params_morphSpeed\<close> is \<open>params.morphSpeed\<close>: the constructor's
  \<open>params\<close> literal has no such key, and the only method that assigns it, the first
  \<open>setMorphSpeed\<close>, is replaced by the second one of the same class body, so it is
  \<open>undefined\<close> (here \<open>None\<close>) unless a caller assigns the field itself. The fields carry
  the suffix \<open>P\<close> where the other ParticleSystem has the plain name.
\<close>

record Plexus =
  params_count :: nat
  params_autoMorph :: bool
  params_morphSpeed :: "real option"
  modelPositions :: "real list option"
  morphTargetP :: "real option"
  morphSpeedP :: real
  autoMorphOnBeatP :: bool
  morphDirectionP :: real
  morphPauseFramesP :: int

definition Plexus_constructor :: Plexus where
  "Plexus_constructor =
     \<lparr> params_count = 100000, params_autoMorph = False, params_morphSpeed = None,
       modelPositions = None, morphTargetP = Some 0, morphSpeedP = 2 / 100,
       autoMorphOnBeatP = True, morphDirectionP = - 1, morphPauseFramesP = 0 \<rparr>"

text \<open>Arithmetic and comparisons with NaN: NaN is absorbing, every comparison with it is false.\<close>

definition num_add :: "real option \<Rightarrow> real option \<Rightarrow> real option" where
  "num_add a b = (case a of None \<Rightarrow> None | Some x \<Rightarrow> (case b of None \<Rightarrow> None | Some y \<Rightarrow> Some (x + y)))"

definition num_mul :: "real option \<Rightarrow> real option \<Rightarrow> real option" where
  "num_mul a b = (case a of None \<Rightarrow> None | Some x \<Rightarrow> (case b of None \<Rightarrow> None | Some y \<Rightarrow> Some (x * y)))"

definition num_ge :: "real option \<Rightarrow> real \<Rightarrow> bool" where
  "num_ge a c = (case a of None \<Rightarrow> False | Some x \<Rightarrow> x \<ge> c)"

definition num_le :: "real option \<Rightarrow> real \<Rightarrow> bool" where
  "num_le a c = (case a of None \<Rightarrow> False | Some x \<Rightarrow> x \<le> c)"

definition num_gt :: "real option \<Rightarrow> real \<Rightarrow> bool" where
  "num_gt a c = (case a of None \<Rightarrow> False | Some x \<Rightarrow> x > c)"

definition num_lt :: "real option \<Rightarrow> real \<Rightarrow> bool" where
  "num_lt a c = (case a of None \<Rightarrow> False | Some x \<Rightarrow> x < c)"

text \<open>three.js's \<open>MathUtils.clamp(value, min, max)\<close> is \<open>Math.max(min, Math.min(max, value))\<close>.\<close>

definition clamp :: "real option \<Rightarrow> real \<Rightarrow> real \<Rightarrow> real option" where
  "clamp v lo hi = (case v of None \<Rightarrow> None | Some x \<Rightarrow> Some (max lo (min hi x)))"

text \<open>
  The class body declares \<open>toggleMorph\<close> twice. \<open>toggleMorph_first\<close> is the declaration
  at line 348; \<open>toggleMorphP\<close> is the one at line 407, which replaces it: it is the
  method every call reaches.
\<close>

definition toggleMorph_first :: "Plexus \<Rightarrow> Plexus" where
  "toggleMorph_first ps =
     (if num_ge (morphTargetP ps) (1 / 2) then ps\<lparr>morphDirectionP := - 1\<rparr>
      else ps\<lparr>morphDirectionP := 1\<rparr>)"

definition toggleMorphP :: "Plexus \<Rightarrow> Plexus" where
  "toggleMorphP ps = ps\<lparr>morphDirectionP := morphDirectionP ps * (- 1)\<rparr>"

definition setMorphSpeedP :: "real \<Rightarrow> Plexus \<Rightarrow> Plexus" where
  "setMorphSpeedP s ps = ps\<lparr>morphSpeedP := s\<rparr>"

text \<open>
  \<open>setModel(model)\<close>, on the morph state. \<open>None\<close> is a null model; \<open>Some vertices\<close> is a
  model whose traversal collected \<open>vertices\<close>. \<open>rv i\<close> is the draw that picks the vertex
  of particle \<open>i\<close> (in [0,1)), \<open>rx i\<close>, \<open>ry i\<close>, \<open>rz i\<close> its jitter draws. The colours the
  method also writes are not part of this record.
\<close>

definition sampleModel :: "(nat \<Rightarrow> real) \<Rightarrow> (nat \<Rightarrow> real) \<Rightarrow> (nat \<Rightarrow> real) \<Rightarrow> (nat \<Rightarrow> real)
    \<Rightarrow> Vector3 list \<Rightarrow> nat \<Rightarrow> real list" where
  "sampleModel rv rx ry rz vertices i =
     (let v = vertices ! nat \<lfloor>rv i * real (length vertices)\<rfloor>
      in [vx v + (rx i - 1 / 2) * (5 / 100),
          vy v + (ry i - 1 / 2) * (5 / 100),
          vz v + (rz i - 1 / 2) * (5 / 100)])"

definition setModel :: "(nat \<Rightarrow> real) \<Rightarrow> (nat \<Rightarrow> real) \<Rightarrow> (nat \<Rightarrow> real) \<Rightarrow> (nat \<Rightarrow> real)
    \<Rightarrow> Vector3 list option \<Rightarrow> Plexus \<Rightarrow> Plexus" where
  "setModel rv rx ry rz mdl ps =
     (case mdl of
        None \<Rightarrow> ps\<lparr>modelPositions := None, morphTargetP := Some 0, morphDirectionP := - 1\<rparr>
      | Some vertices \<Rightarrow>
          if length vertices > 0
          then ps\<lparr> modelPositions :=
                      Some (concat (map (sampleModel rv rx ry rz vertices) [0..<params_count ps])),
                    morphTargetP := Some (1 / 100), morphDirectionP := 1 \<rparr>
          else ps)"

text \<open>
  The morph part of \<open>update(audioData)\<close> (lines 421 to 466; the particle loop after it
  reads the morph state and does not write it), in the four blocks the source's comments
  name: Morph Update Logic, Auto morph on beat, Morph Layout Handling, Update morph target
  factor; \<open>updateMorph\<close> runs them in that order. \<open>in_isBeat\<close> and \<open>in_beat\<close> are
  \<open>audioData.isBeat\<close> and \<open>audioData.beat || false\<close>; \<open>in_random1\<close> and \<open>in_random2\<close>
  are the draws of \<open>Math.random()\<close> at lines 438 and 453.
\<close>

record morphInput =
  in_isBeat :: bool
  in_beat :: bool
  in_random1 :: real
  in_random2 :: real

definition morphUpdateLogic :: "Plexus \<Rightarrow> Plexus" where
  "morphUpdateLogic ps =
     (if morphDirectionP ps \<noteq> 0
      then (let mt = num_add (morphTargetP ps)
                       (num_mul (Some (morphDirectionP ps)) (params_morphSpeed ps))
            in if num_ge mt 1 then ps\<lparr>morphTargetP := Some 1, morphDirectionP := 0\<rparr>
               else if num_le mt 0 then ps\<lparr>morphTargetP := Some 0, morphDirectionP := 0\<rparr>
               else ps\<lparr>morphTargetP := mt\<rparr>)
      else ps)"

definition autoMorphOnBeatLogic :: "morphInput \<Rightarrow> Plexus \<Rightarrow> Plexus" where
  "autoMorphOnBeatLogic inp ps =
     (if params_autoMorph ps \<and> in_isBeat inp \<and> num_lt (morphTargetP ps) (1 / 10)
      then toggleMorphP ps
      else if params_autoMorph ps \<and> num_gt (morphTargetP ps) (9 / 10) \<and> in_random1 inp < 1 / 100
      then toggleMorphP ps
      else ps)"

definition morphLayoutHandling :: "morphInput \<Rightarrow> Plexus \<Rightarrow> Plexus" where
  "morphLayoutHandling inp ps =
     (let ps1 = (if autoMorphOnBeatP ps \<and> in_beat inp \<and> morphPauseFramesP ps \<le> 0
                 then (if in_random2 inp > 7 / 10
                       then ps\<lparr>morphDirectionP := morphDirectionP ps * (- 1), morphPauseFramesP := 60\<rparr>
                       else ps)
                 else ps)
      in if morphPauseFramesP ps1 > 0
         then ps1\<lparr>morphPauseFramesP := morphPauseFramesP ps1 - 1\<rparr> else ps1)"

definition updateMorphTargetFactor :: "Plexus \<Rightarrow> Plexus" where
  "updateMorphTargetFactor ps =
     (if modelPositions ps \<noteq> None
      then ps\<lparr>morphTargetP :=
                clamp (num_add (morphTargetP ps) (Some (morphDirectionP ps * morphSpeedP ps))) 0 1\<rparr>
      else ps\<lparr>morphTargetP := Some 0\<rparr>)"

definition updateMorph :: "morphInput \<Rightarrow> Plexus \<Rightarrow> Plexus" where
  "updateMorph inp ps =
     updateMorphTargetFactor (morphLayoutHandling inp (autoMorphOnBeatLogic inp (morphUpdateLogic ps)))"

fun updateMorph_ticks :: "morphInput list \<Rightarrow> Plexus \<Rightarrow> Plexus" where
  "updateMorph_ticks [] ps = ps"
| "updateMorph_ticks (inp # inps) ps = updateMorph_ticks inps (updateMorph inp ps)"



section \<open>Predicates and concrete inputs used in the statements\<close>

definition unitBands :: "AudioAnalyzer \<Rightarrow> bool" where
  "unitBands a =
     (0 \<le> bass a \<and> bass a \<le> 1 \<and> 0 \<le> mid a \<and> mid a \<le> 1 \<and> 0 \<le> treble a \<and> treble a \<le> 1)"

definition unitList :: "real list \<Rightarrow> bool" where
  "unitList xs = (\<forall>m \<in> set xs. 0 \<le> m \<and> m \<le> 1)"

definition unitNum :: "real option \<Rightarrow> bool" where
  "unitNum v = (case v of None \<Rightarrow> False | Some m \<Rightarrow> 0 \<le> m \<and> m \<le> 1)"

text \<open>An analyser with audio loaded and playing, and the same after one silent frame.\<close>

definition playingAnalyzer :: AudioAnalyzer where
  "playingAnalyzer = play (loadAudio AudioAnalyzer_constructor)"

definition afterSilence :: AudioAnalyzer where
  "afterSilence = playingAnalyzer\<lparr>energyHistory := [0]\<rparr>"

definition quietSpectrum :: "8 word list" where
  "quietSpectrum = replicate 256 0"

definition loudSpectrum :: "8 word list" where
  "loudSpectrum = replicate 256 255"

definition demoSpectra :: "(8 word list \<times> real) list" where
  "demoSpectra = [(quietSpectrum, 16), (loudSpectrum, 300)]"

text \<open>Four frames of (energy, clock): quiet, a beat, quiet, a second beat 300 ms later.\<close>

definition demoFrames :: "(real \<times> real) list" where
  "demoFrames = [(2 / 10, 16), (8 / 10, 300), (2 / 10, 316), (1, 600)]"

text \<open>
  The same first three frames as spectra: every bin is 51, then 204, then 51 again
  (raw bass energy 0.2, 0.8, 0.2).
\<close>

definition uniformSpectrum :: "8 word \<Rightarrow> 8 word list" where
  "uniformSpectrum b = replicate 256 b"

definition plateauFrames :: "(8 word list \<times> real) list" where
  "plateauFrames = [(uniformSpectrum 51, 16), (uniformSpectrum 204, 300), (uniformSpectrum 51, 316)]"

text \<open>A system of one particle, silent audio, and random draws that are all 0.\<close>

definition noDraw :: "nat \<Rightarrow> real" where
  "noDraw i = 0"

definition oneParticle :: ParticleSystem where
  "oneParticle =
     \<lparr> particles = True, particleCount = 1,
       positions = [0, 0, 0], scatterPositions = [0, 0, 0], targetPositions = [0, 0, 0],
       colors = [1, 1, 1], originalColors = [1, 1, 1], sizes = [1], morphFactors = [0],
       velocities = [0, 0, 0],
       morphTarget = 0, morphSpeed = 2 / 100, autoMorphOnBeat = True, morphDirection = 1,
       morphPauseFrames = 0, model = True, modelVertices = [],
       time = 0, uAudioScale = 1, uTime = 0, rotation_y = 0 \<rparr>"

definition silentAudio :: audioData where
  "silentAudio =
     \<lparr> audioLevel = 0, frequencyData = None, ad_bass = 0, ad_mid = 0, ad_treble = 0,
       ad_isBeat = False, reactivity = 1, attenuation = 95 / 100, turbulence = 1 / 2,
       bloomIntensity = 1 \<rparr>"

definition calmInput :: morphInput where
  "calmInput = \<lparr> in_isBeat = False, in_beat = False, in_random1 = 1 / 2, in_random2 = 1 / 2 \<rparr>"

definition oneVertex :: "Vector3 list" where
  "oneVertex = [Vector3 0 1 0]"



definition twoTicks :: "(audioData \<times> (nat \<Rightarrow> real)) list" where
  "twoTicks = [(silentAudio, noDraw), (silentAudio, noDraw)]"

text \<open>
  A plexus system in the middle of a morph towards a loaded model, with
  \<open>params.morphSpeed\<close> holding a number: no method of the class assigns that field, so
  this is a state only a caller that writes the field itself can make.
\<close>

definition morphingPlexus :: Plexus where
  "morphingPlexus =
     \<lparr> params_count = 1, params_autoMorph = False, params_morphSpeed = Some (2 / 100),
       modelPositions = Some [0, 1, 0], morphTargetP = Some (1 / 100), morphSpeedP = 2 / 100,
       autoMorphOnBeatP = True, morphDirectionP = 1, morphPauseFramesP = 0 \<rparr>"

section \<open>The beat detector\<close>

lemma adaptiveThreshold_upd [simp]:
  "adaptiveThreshold (a\<lparr>energyHistory := h\<rparr>) h' = adaptiveThreshold a h'"
  by (simp add: adaptiveThreshold_def split: option.splits)

lemma detectBeat_fields:
  "beatMinInterval (detectBeat a e t) = beatMinInterval a"
  "beatDecay (detectBeat a e t) = beatDecay a"
  "beatThreshold (detectBeat a e t) = beatThreshold a"
  "energyHistoryMax (detectBeat a e t) = energyHistoryMax a"
  "energyHistory (detectBeat a e t) = pushHistory a e"
  "beatEnergy (detectBeat a e t) = e * beatDecay a"
  "bass (detectBeat a e t) = bass a"
  "mid (detectBeat a e t) = mid a"
  "treble (detectBeat a e t) = treble a"
  "smoothing (detectBeat a e t) = smoothing a"
  "bufferLength (detectBeat a e t) = bufferLength a"
  "analyser (detectBeat a e t) = analyser a"
  "isPlaying (detectBeat a e t) = isPlaying a"
  by (simp_all add: detectBeat_def Let_def)

lemma detectBeat_isBeat:
  "isBeat (detectBeat a e t) =
     ((case adaptiveThreshold a (pushHistory a e) of None \<Rightarrow> False | Some thr \<Rightarrow> e > thr)
      \<and> e > beatEnergy a \<and> t - lastBeatTime a > beatMinInterval a)"
  by (simp add: detectBeat_def Let_def)

lemma detectBeat_lastBeatTime:
  "lastBeatTime (detectBeat a e t) = (if isBeat (detectBeat a e t) then t else lastBeatTime a)"
  by (simp add: detectBeat_def Let_def)




text \<open>
  A beat in a later frame of a run comes more than the interval after the last beat
  time the run started with.
\<close>

lemma beat_after_last:
  "0 \<le> beatMinInterval a \<Longrightarrow> j < length frames \<Longrightarrow> isBeat (detectBeatRun a frames ! j)
     \<Longrightarrow> snd (frames ! j) - lastBeatTime a > beatMinInterval a"
proof (induction a frames arbitrary: j rule: detectBeatRun.induct)
  case (1 a)
  then show ?case by simp
next
  case (2 a energy now frames)
  let ?a' = "detectBeat a energy now"
  show ?case
  proof (cases j)
    case 0
    with 2 show ?thesis by (simp add: detectBeat_isBeat)
  next
    case (Suc k)
    with 2 have k: "k < length frames" "isBeat (detectBeatRun ?a' frames ! k)" by simp_all
    have "snd (frames ! k) - lastBeatTime ?a' > beatMinInterval ?a'"
      using 2 k by (simp add: detectBeat_fields)
    then have gt: "snd (frames ! k) - lastBeatTime ?a' > beatMinInterval a"
      by (simp add: detectBeat_fields)
    have "lastBeatTime ?a' \<ge> lastBeatTime a"
    proof (cases "isBeat ?a'")
      case True
      then have "now - lastBeatTime a > beatMinInterval a" by (simp add: detectBeat_isBeat)
      with 2(2) True show ?thesis by (simp add: detectBeat_lastBeatTime)
    next
      case False
      then show ?thesis by (simp add: detectBeat_lastBeatTime)
    qed
    with gt Suc show ?thesis by simp
  qed
qed

lemma demo_beats:
  "map isBeat (detectBeatRun AudioAnalyzer_constructor demoFrames) = [False, True, False, True]"
  by (simp add: demoFrames_def AudioAnalyzer_constructor_def detectBeat_def pushHistory_def
      adaptiveThreshold_def historyAvg_def Let_def)

text \<open>
  C1. Beat refractory invariant: in every run of the beat detector over any sequence of
  frames (energy and clock value), two frames that both set the beat flag are more than
  \<open>beatMinInterval\<close> apart in time. The interval is not negative (it is 200 ms).
\<close>

theorem beat_refractory_invariant:
  "0 \<le> beatMinInterval a \<Longrightarrow> i < j \<Longrightarrow> j < length frames
     \<Longrightarrow> isBeat (detectBeatRun a frames ! i) \<Longrightarrow> isBeat (detectBeatRun a frames ! j)
     \<Longrightarrow> snd (frames ! j) - snd (frames ! i) > beatMinInterval a"
proof (induction a frames arbitrary: i j rule: detectBeatRun.induct)
  case (1 a)
  then show ?case by simp
next
  case (2 a energy now frames)
  let ?a' = "detectBeat a energy now"
  from 2(3) obtain k where j: "j = Suc k" by (cases j) auto
  show ?case
  proof (cases i)
    case 0
    with 2 have b: "isBeat ?a'" by simp
    then have l: "lastBeatTime ?a' = now" by (simp add: detectBeat_lastBeatTime)
    have "snd (frames ! k) - lastBeatTime ?a' > beatMinInterval ?a'"
      using 2 j by (intro beat_after_last) (simp_all add: detectBeat_fields)
    with l 0 j show ?thesis by (simp add: detectBeat_fields)
  next
    case (Suc i')
    with 2 j have "snd (frames ! k) - snd (frames ! i') > beatMinInterval ?a'"
      by (intro 2(1)) (simp_all add: detectBeat_fields)
    with Suc j show ?thesis by (simp add: detectBeat_fields)
  qed
qed

theorem beat_refractory_invariant_witness:
  "isBeat (detectBeatRun AudioAnalyzer_constructor demoFrames ! 1)
   \<and> isBeat (detectBeatRun AudioAnalyzer_constructor demoFrames ! 3)
   \<and> snd (demoFrames ! 3) - snd (demoFrames ! 1) > beatMinInterval AudioAnalyzer_constructor"
proof -
  have m: "0 \<le> beatMinInterval AudioAnalyzer_constructor"
    by (simp add: AudioAnalyzer_constructor_def)
  have l: "(1::nat) < 3" "3 < length demoFrames" by (simp_all add: demoFrames_def)
  have n: "length (detectBeatRun AudioAnalyzer_constructor demoFrames) = 4"
    using arg_cong [OF demo_beats, of length] by simp
  have b1: "isBeat (detectBeatRun AudioAnalyzer_constructor demoFrames ! 1)"
    using arg_cong [OF demo_beats, of "\<lambda>bs. bs ! 1"] n by simp
  have b3: "isBeat (detectBeatRun AudioAnalyzer_constructor demoFrames ! 3)"
    using arg_cong [OF demo_beats, of "\<lambda>bs. bs ! 3"] n by simp
  from beat_refractory_invariant [OF m l b1 b3] b1 b3 show ?thesis by simp
qed

section \<open>The band analysis\<close>

lemma fold_addBin_in_range:
  "\<forall>i \<in> set xs. i < length d \<Longrightarrow>
     fold (addBin d) xs (Some c) = Some (c + (\<Sum>i\<leftarrow>xs. real (unat (d ! i))))"
  by (induction xs arbitrary: c) (simp_all add: addBin_def byteAt_def)

lemma bandAverage_in_range:
  "start < end' \<Longrightarrow> end' \<le> length d \<Longrightarrow>
     bandAverage d start end'
       = Some ((\<Sum>i\<leftarrow>[start..<end']. real (unat (d ! i))) / real (end' - start) / 255)"
  by (simp add: bandAverage_def bandBins_def fold_addBin_in_range of_nat_diff)

lemma sum_list_bounds:
  "\<forall>x \<in> set xs. 0 \<le> f x \<and> f x \<le> (c::real) \<Longrightarrow>
     0 \<le> (\<Sum>x\<leftarrow>xs. f x) \<and> (\<Sum>x\<leftarrow>xs. f x) \<le> real (length xs) * c"
  by (induction xs) (auto simp: algebra_simps)

lemma byte_bounds: "0 \<le> real (unat (w :: 8 word)) \<and> real (unat (w :: 8 word)) \<le> 255"
proof -
  have z: "0 \<le> real (unat w)" by (simp only: of_nat_0_le_iff)
  have "unat w < 2 ^ LENGTH(8)" by (rule unsigned_less)
  then have "unat w \<le> 255" by simp
  then have "real (unat w) \<le> real 255" by (simp only: of_nat_le_iff)
  with z show ?thesis by simp
qed

text \<open>A band that lies inside the spectrum and is not empty has an average in [0,1].\<close>

lemma bandAverage_unit:
  assumes "start < end'" "end' \<le> length d"
  shows "\<exists>r. bandAverage d start end' = Some r \<and> 0 \<le> r \<and> r \<le> 1"
proof -
  let ?S = "\<Sum>i\<leftarrow>[start..<end']. real (unat (d ! i))"
  have b: "0 \<le> ?S \<and> ?S \<le> real (length [start..<end']) * 255"
    using byte_bounds by (intro sum_list_bounds) auto
  have n: "0 < real (end' - start)" using assms by simp
  from b have "?S / real (end' - start) \<le> 255"
    using n by (simp add: pos_divide_le_eq mult.commute)
  moreover from b n have "0 \<le> ?S / real (end' - start)" by simp
  ultimately have "0 \<le> ?S / real (end' - start) / 255 \<and> ?S / real (end' - start) / 255 \<le> 1"
    by simp
  with bandAverage_in_range [OF assms] show ?thesis by simp
qed

lemma bandAverage_replicate:
  assumes "start < end'" "end' \<le> n"
  shows "bandAverage (replicate n b) start end' = Some (real (unat b) / 255)"
proof -
  have "(\<Sum>i\<leftarrow>[start..<end']. real (unat (replicate n b ! i)))
          = (\<Sum>i\<leftarrow>[start..<end']. real (unat b))"
    using assms by (intro arg_cong [where f = sum_list] map_cong) simp_all
  also have "\<dots> = real (end' - start) * real (unat b)"
    by (simp add: sum_list_triv)
  finally show ?thesis using assms by (simp add: bandAverage_in_range)
qed

lemma smooth_unit:
  assumes "0 < (s::real)" "s < 1" "0 \<le> b" "b \<le> 1" "0 \<le> r" "r \<le> 1"
  shows "0 \<le> b * s + r * (1 - s) \<and> b * s + r * (1 - s) \<le> 1"
proof -
  have "b * s \<le> 1 * s" using assms by (intro mult_right_mono) simp_all
  moreover have "r * (1 - s) \<le> 1 * (1 - s)" using assms by (intro mult_right_mono) simp_all
  moreover have "0 \<le> b * s" "0 \<le> r * (1 - s)" using assms by simp_all
  ultimately show ?thesis by simp
qed

lemma update_unitBands:
  assumes s: "0 < smoothing a" "smoothing a < 1" and u: "unitBands a"
    and l: "length d = bufferLength a" "42 \<le> bufferLength a"
  shows "\<exists>a'. update a d now = Some a' \<and> unitBands a' \<and> smoothing a' = smoothing a
              \<and> bufferLength a' = bufferLength a"
proof (cases "analyser a \<and> isPlaying a")
  case False
  then show ?thesis using u by (auto simp: update_def unitBands_def)
next
  case True
  obtain rb where rb: "bandAverage d 0 bassEnd = Some rb" "0 \<le> rb" "rb \<le> 1"
    using bandAverage_unit [of 0 bassEnd d] l by (auto simp: bassEnd_def)
  obtain rm where rm: "bandAverage d bassEnd midEnd = Some rm" "0 \<le> rm" "rm \<le> 1"
    using bandAverage_unit [of bassEnd midEnd d] l by (auto simp: bassEnd_def midEnd_def)
  obtain rt where rt: "bandAverage d midEnd (trebleEnd (bufferLength a)) = Some rt"
      "0 \<le> rt" "rt \<le> 1"
    using bandAverage_unit [of midEnd "trebleEnd (bufferLength a)" d] l
    by (auto simp: midEnd_def trebleEnd_def)
  show ?thesis
    using True rb rm rt u s smooth_unit [OF s, of "bass a" rb] smooth_unit [OF s, of "mid a" rm]
      smooth_unit [OF s, of "treble a" rt]
    by (simp add: update_def Let_def unitBands_def detectBeat_fields)
qed

lemma updateRun_unitBands:
  "unitBands a \<Longrightarrow> 0 < smoothing a \<Longrightarrow> smoothing a < 1 \<Longrightarrow> 42 \<le> bufferLength a \<Longrightarrow>
     \<forall>f \<in> set frames. length (fst f) = bufferLength a \<Longrightarrow>
     \<exists>a'. updateRun a frames = Some a' \<and> unitBands a'"
proof (induction a frames rule: updateRun.induct)
  case (1 a)
  then show ?case by simp
next
  case (2 a dataArray now frames)
  from update_unitBands [OF 2(3) 2(4) 2(2) _ 2(5), of dataArray now] 2(6)
  obtain a1 where a1: "update a dataArray now = Some a1" "unitBands a1"
    "smoothing a1 = smoothing a" "bufferLength a1 = bufferLength a" by auto
  have "\<exists>a'. updateRun a1 frames = Some a' \<and> unitBands a'"
    using 2 a1 by (intro 2(1)) simp_all
  with a1 show ?case by simp
qed

lemma playingAnalyzer_fields:
  "analyser playingAnalyzer" "isPlaying playingAnalyzer" "bufferLength playingAnalyzer = 256"
  "smoothing playingAnalyzer = 82 / 100" "unitBands playingAnalyzer"
  "energyHistoryMax playingAnalyzer = 60" "beatEnergy playingAnalyzer = 0"
  "lastBeatTime playingAnalyzer = 0" "beatMinInterval playingAnalyzer = 200"
  "beatThreshold playingAnalyzer = 45 / 100" "energyHistory playingAnalyzer = []"
  by (simp_all add: playingAnalyzer_def play_def loadAudio_def AudioAnalyzer_constructor_def
      unitBands_def Let_def)

text \<open>The state \<open>afterSilence\<close> is what one frame of silence makes of \<open>playingAnalyzer\<close>.\<close>

lemma afterSilence_reached: "update playingAnalyzer quietSpectrum 16 = Some afterSilence"
proof -
  have b: "bandAverage quietSpectrum 0 bassEnd = Some 0"
    "bandAverage quietSpectrum bassEnd midEnd = Some 0"
    "bandAverage quietSpectrum midEnd (trebleEnd 256) = Some 0"
    by (simp_all add: quietSpectrum_def bassEnd_def midEnd_def trebleEnd_def bandAverage_replicate)
  show ?thesis
    by (simp add: update_def b playingAnalyzer_fields Let_def detectBeat_def pushHistory_def
        adaptiveThreshold_def historyAvg_def afterSilence_def)
       (simp add: playingAnalyzer_def play_def loadAudio_def AudioAnalyzer_constructor_def Let_def)
qed

text \<open>A frame whose bins all hold the byte \<open>b\<close>: every band average is \<open>b / 255\<close>.\<close>

lemma update_uniformSpectrum:
  assumes "analyser a" "isPlaying a" "bufferLength a = 256"
  shows "update a (uniformSpectrum b) now =
     Some (detectBeat
            (a\<lparr> bass := bass a * smoothing a + real (unat b) / 255 * (1 - smoothing a),
                mid := mid a * smoothing a + real (unat b) / 255 * (1 - smoothing a),
                treble := treble a * smoothing a + real (unat b) / 255 * (1 - smoothing a) \<rparr>)
            (real (unat b) / 255) now)"
proof -
  have b: "bandAverage (uniformSpectrum b) 0 bassEnd = Some (real (unat b) / 255)"
    "bandAverage (uniformSpectrum b) bassEnd midEnd = Some (real (unat b) / 255)"
    "bandAverage (uniformSpectrum b) midEnd (trebleEnd 256) = Some (real (unat b) / 255)"
    by (simp_all add: uniformSpectrum_def bassEnd_def midEnd_def trebleEnd_def bandAverage_replicate)
  show ?thesis using assms by (simp add: update_def b Let_def)
qed

lemma plateau_states:
  "\<exists>a1 a2 a3.
     update playingAnalyzer (uniformSpectrum 51) 16 = Some a1
     \<and> update a1 (uniformSpectrum 204) 300 = Some a2
     \<and> update a2 (uniformSpectrum 51) 316 = Some a3
     \<and> isBeat a2 \<and> \<not> isBeat a3 \<and> beatEnergy a2 = 784 / 1000 \<and> beatEnergy a3 = 196 / 1000"
proof -
  define a0 where "a0 = playingAnalyzer"
  define a1 where "a1 = detectBeat
      (a0\<lparr> bass := bass a0 * smoothing a0 + real (unat (51 :: 8 word)) / 255 * (1 - smoothing a0),
           mid := mid a0 * smoothing a0 + real (unat (51 :: 8 word)) / 255 * (1 - smoothing a0),
           treble := treble a0 * smoothing a0 + real (unat (51 :: 8 word)) / 255 * (1 - smoothing a0) \<rparr>)
      (real (unat (51 :: 8 word)) / 255) 16"
  define a2 where "a2 = detectBeat
      (a1\<lparr> bass := bass a1 * smoothing a1 + real (unat (204 :: 8 word)) / 255 * (1 - smoothing a1),
           mid := mid a1 * smoothing a1 + real (unat (204 :: 8 word)) / 255 * (1 - smoothing a1),
           treble := treble a1 * smoothing a1 + real (unat (204 :: 8 word)) / 255 * (1 - smoothing a1) \<rparr>)
      (real (unat (204 :: 8 word)) / 255) 300"
  define a3 where "a3 = detectBeat
      (a2\<lparr> bass := bass a2 * smoothing a2 + real (unat (51 :: 8 word)) / 255 * (1 - smoothing a2),
           mid := mid a2 * smoothing a2 + real (unat (51 :: 8 word)) / 255 * (1 - smoothing a2),
           treble := treble a2 * smoothing a2 + real (unat (51 :: 8 word)) / 255 * (1 - smoothing a2) \<rparr>)
      (real (unat (51 :: 8 word)) / 255) 316"
  have f0: "analyser a0" "isPlaying a0" "bufferLength a0 = 256" "beatDecay a0 = 98 / 100"
    "energyHistory a0 = []" "energyHistoryMax a0 = 60" "beatThreshold a0 = 45 / 100"
    "beatEnergy a0 = 0" "lastBeatTime a0 = 0" "beatMinInterval a0 = 200"
    by (simp_all add: a0_def playingAnalyzer_def play_def loadAudio_def
        AudioAnalyzer_constructor_def Let_def)
  have f1: "analyser a1" "isPlaying a1" "bufferLength a1 = 256" "beatDecay a1 = 98 / 100"
    "energyHistory a1 = [2 / 10]" "energyHistoryMax a1 = 60" "beatThreshold a1 = 45 / 100"
    "beatEnergy a1 = 196 / 1000" "beatMinInterval a1 = 200"
    by (simp_all add: a1_def detectBeat_fields f0 pushHistory_def)
  have l1: "lastBeatTime a1 = 0"
    by (simp add: a1_def detectBeat_lastBeatTime detectBeat_isBeat f0 pushHistory_def
        adaptiveThreshold_def historyAvg_def)
  have f2: "analyser a2" "isPlaying a2" "bufferLength a2 = 256" "beatDecay a2 = 98 / 100"
    "energyHistory a2 = [2 / 10, 8 / 10]" "energyHistoryMax a2 = 60" "beatThreshold a2 = 45 / 100"
    "beatEnergy a2 = 784 / 1000" "beatMinInterval a2 = 200"
    by (simp_all add: a2_def detectBeat_fields f1 pushHistory_def)
  have b2: "isBeat a2"
    by (simp add: a2_def detectBeat_isBeat f1 l1 pushHistory_def adaptiveThreshold_def
        historyAvg_def)
  have l2: "lastBeatTime a2 = 300"
    using b2 by (simp add: a2_def detectBeat_lastBeatTime)
  have b3: "\<not> isBeat a3"
    by (simp add: a3_def detectBeat_isBeat f2 l2 pushHistory_def adaptiveThreshold_def
        historyAvg_def)
  have e3: "beatEnergy a3 = 196 / 1000"
    by (simp add: a3_def detectBeat_fields f2)
  have u1: "update playingAnalyzer (uniformSpectrum 51) 16 = Some a1"
    unfolding a1_def a0_def [symmetric] by (rule update_uniformSpectrum) (rule f0)+
  have u2: "update a1 (uniformSpectrum 204) 300 = Some a2"
    unfolding a2_def by (rule update_uniformSpectrum) (rule f1)+
  have u3: "update a2 (uniformSpectrum 51) 316 = Some a3"
    unfolding a3_def by (rule update_uniformSpectrum) (rule f2)+
  from u1 u2 u3 b2 b3 f2(8) e3 show ?thesis by blast
qed

text \<open>
  C4. The decay baseline. The specification has the energy of the last beat stored and decayed
  once per frame; the code overwrites \<open>beatEnergy\<close> in every frame with the energy of
  that frame times \<open>beatDecay\<close>, whether or not a beat fired. In the run \<open>plateauFrames\<close>
  the second frame is a beat of energy 0.8 and the third frame (energy 0.2) is not: the
  tracker is 0.196 after it, not 0.8 decayed twice (0.76832).
\<close>

theorem beat_energy_overwritten_each_frame:
  "map_option isBeat (updateRun playingAnalyzer (take 2 plateauFrames)) = Some True
   \<and> map_option isBeat (updateRun playingAnalyzer plateauFrames) = Some False
   \<and> map_option beatEnergy (updateRun playingAnalyzer plateauFrames) = Some (196 / 1000)
   \<and> 8 / 10 * beatDecay playingAnalyzer * beatDecay playingAnalyzer = 76832 / 100000"
proof -
  from plateau_states obtain a1 a2 a3 where
    u: "update playingAnalyzer (uniformSpectrum 51) 16 = Some a1"
       "update a1 (uniformSpectrum 204) 300 = Some a2"
       "update a2 (uniformSpectrum 51) 316 = Some a3"
    and r: "isBeat a2" "\<not> isBeat a3" "beatEnergy a3 = 196 / 1000"
    by blast
  have "updateRun playingAnalyzer (take 2 plateauFrames) = Some a2"
    by (simp add: plateauFrames_def u)
  moreover have "updateRun playingAnalyzer plateauFrames = Some a3"
    by (simp add: plateauFrames_def u)
  moreover have "8 / 10 * beatDecay playingAnalyzer * beatDecay playingAnalyzer = 76832 / 100000"
    by (simp add: playingAnalyzer_def play_def loadAudio_def AudioAnalyzer_constructor_def Let_def)
  ultimately show ?thesis using r by simp
qed



text \<open>
  C5. Smoothing boundedness: with the smoothing factor in (0,1) and the smoothed levels
  in [0,1] (they start at 0), after any number of frames whose spectra are byte arrays of
  the analyser's length (at least 42 bins, so that every band is inside the spectrum and
  not empty; the analyser has 256) \<open>update\<close> has returned a state each time and bass, mid
  and treble are in [0,1].
\<close>

theorem smoothing_bounded:
  assumes "0 < smoothing a" "smoothing a < 1"
    and "0 \<le> bass a \<and> bass a \<le> 1 \<and> 0 \<le> mid a \<and> mid a \<le> 1 \<and> 0 \<le> treble a \<and> treble a \<le> 1"
    and "\<forall>f \<in> set frames. length (fst f) = bufferLength a" and "42 \<le> bufferLength a"
  shows "\<exists>a'. updateRun a frames = Some a'
           \<and> 0 \<le> bass a' \<and> bass a' \<le> 1 \<and> 0 \<le> mid a' \<and> mid a' \<le> 1
           \<and> 0 \<le> treble a' \<and> treble a' \<le> 1"
  using updateRun_unitBands [of a frames] assms by (simp add: unitBands_def)

theorem smoothing_bounded_witness:
  "\<exists>a'. updateRun playingAnalyzer demoSpectra = Some a'
     \<and> 0 \<le> bass a' \<and> bass a' \<le> 1 \<and> 0 \<le> mid a' \<and> mid a' \<le> 1
     \<and> 0 \<le> treble a' \<and> treble a' \<le> 1"
proof -
  have u: "0 \<le> bass playingAnalyzer \<and> bass playingAnalyzer \<le> 1
      \<and> 0 \<le> mid playingAnalyzer \<and> mid playingAnalyzer \<le> 1
      \<and> 0 \<le> treble playingAnalyzer \<and> treble playingAnalyzer \<le> 1"
    using playingAnalyzer_fields by (simp add: unitBands_def)
  have l: "\<forall>f \<in> set demoSpectra. length (fst f) = bufferLength playingAnalyzer"
    by (simp add: demoSpectra_def quietSpectrum_def loudSpectrum_def playingAnalyzer_fields)
  show ?thesis
    by (rule smoothing_bounded [OF _ _ u l]) (simp_all add: playingAnalyzer_fields)
qed

lemma band_sets:
  "set bassBins = {0..<7}" "set midBins = {7..<41}" "set (trebleBins L) = {41..<trebleEnd L}"
  unfolding bassBins_def midBins_def trebleBins_def bandBins_def bassEnd_def midEnd_def
  by (simp_all only: set_upt)

lemma bandAverage_bandMean:
  "start < end' \<Longrightarrow> end' \<le> length d \<Longrightarrow>
     bandAverage d start end' = Some (bandMean d (bandBins start end'))"
  by (simp add: bandAverage_in_range bandMean_def bandBins_def)

text \<open>
  On a spectrum of the analyser's length, with at least 42 bins, \<open>update\<close> blends into
  each smoothed level the mean of the bins of its band and of no other bin.
\<close>

lemma update_uses_bands:
  assumes "analyser a" "isPlaying a" "length d = bufferLength a" "42 \<le> bufferLength a"
  shows "\<exists>a'. update a d now = Some a'
     \<and> bass a' = bass a * smoothing a + bandMean d bassBins * (1 - smoothing a)
     \<and> mid a' = mid a * smoothing a + bandMean d midBins * (1 - smoothing a)
     \<and> treble a' = treble a * smoothing a
          + bandMean d (trebleBins (bufferLength a)) * (1 - smoothing a)"
proof -
  have b: "bandAverage d 0 bassEnd = Some (bandMean d bassBins)"
    unfolding bassBins_def using assms(3,4)
    by (intro bandAverage_bandMean) (simp_all add: bassEnd_def)
  have m: "bandAverage d bassEnd midEnd = Some (bandMean d midBins)"
    unfolding midBins_def using assms(3,4)
    by (intro bandAverage_bandMean) (simp_all add: bassEnd_def midEnd_def)
  have t: "bandAverage d midEnd (trebleEnd (bufferLength a))
      = Some (bandMean d (trebleBins (bufferLength a)))"
    unfolding trebleBins_def using assms(3,4)
    by (intro bandAverage_bandMean) (simp_all add: midEnd_def trebleEnd_def)
  show ?thesis using assms(1,2) by (simp add: update_def b m t Let_def detectBeat_fields)
qed

text \<open>
  C6. Band partition coverage: the bass, mid and treble bin ranges of the band analysis
  are pairwise disjoint for every spectrum length L, so no bin is counted in two bands;
  for every spectrum of at least 41 bins (the analyser's spectrum always has 256) their
  union is a contiguous prefix of [0,L), the one that ends at the treble cutoff
  min(128, L); and on a spectrum of the analyser's length with at least 42 bins \<open>update\<close>
  blends into each smoothed level the mean of exactly the bins of its band.
\<close>

theorem band_partition:
  "set bassBins \<inter> set midBins = {}
   \<and> set bassBins \<inter> set (trebleBins L) = {}
   \<and> set midBins \<inter> set (trebleBins L) = {}
   \<and> (41 \<le> L \<longrightarrow>
        set bassBins \<union> set midBins \<union> set (trebleBins L) = {0..<trebleEnd L} \<and> trebleEnd L \<le> L)
   \<and> (42 \<le> L \<and> bufferLength a = L \<and> length dataArray = L \<and> analyser a \<and> isPlaying a \<longrightarrow>
        (\<exists>a'. update a dataArray now = Some a'
           \<and> bass a' = bass a * smoothing a + bandMean dataArray bassBins * (1 - smoothing a)
           \<and> mid a' = mid a * smoothing a + bandMean dataArray midBins * (1 - smoothing a)
           \<and> treble a' = treble a * smoothing a
                + bandMean dataArray (trebleBins L) * (1 - smoothing a)))"
proof -
  have 1: "set bassBins \<inter> set midBins = {} \<and> set bassBins \<inter> set (trebleBins L) = {}
      \<and> set midBins \<inter> set (trebleBins L) = {}"
    unfolding band_sets by auto
  have 2: "41 \<le> L \<longrightarrow>
      set bassBins \<union> set midBins \<union> set (trebleBins L) = {0..<trebleEnd L} \<and> trebleEnd L \<le> L"
    unfolding band_sets trebleEnd_def by auto
  have 3: "42 \<le> L \<and> bufferLength a = L \<and> length dataArray = L \<and> analyser a \<and> isPlaying a \<longrightarrow>
      (\<exists>a'. update a dataArray now = Some a'
         \<and> bass a' = bass a * smoothing a + bandMean dataArray bassBins * (1 - smoothing a)
         \<and> mid a' = mid a * smoothing a + bandMean dataArray midBins * (1 - smoothing a)
         \<and> treble a' = treble a * smoothing a
              + bandMean dataArray (trebleBins L) * (1 - smoothing a))"
    using update_uses_bands [of a dataArray now] by auto
  from 1 2 3 show ?thesis by blast
qed

theorem band_partition_witness:
  "set bassBins \<union> set midBins \<union> set (trebleBins 256) = {0..<128}
   \<and> set midBins \<inter> set (trebleBins 256) = {}
   \<and> (\<exists>a'. update playingAnalyzer loudSpectrum 300 = Some a'
         \<and> bass a' = bass playingAnalyzer * smoothing playingAnalyzer
              + bandMean loudSpectrum bassBins * (1 - smoothing playingAnalyzer)
         \<and> treble a' = treble playingAnalyzer * smoothing playingAnalyzer
              + bandMean loudSpectrum (trebleBins 256) * (1 - smoothing playingAnalyzer))"
proof -
  have h: "(42::nat) \<le> 256 \<and> bufferLength playingAnalyzer = 256 \<and> length loudSpectrum = 256
      \<and> analyser playingAnalyzer \<and> isPlaying playingAnalyzer"
    by (simp add: playingAnalyzer_fields loudSpectrum_def)
  have t: "trebleEnd 256 = 128" by (simp add: trebleEnd_def)
  from band_partition [of 256 playingAnalyzer loudSpectrum 300] h t
  show ?thesis by auto
qed

section \<open>The particle update (part_000)\<close>

text \<open>The boundary test without the square root, for evaluation.\<close>

lemma beyondBoundary_squares [code]:
  "beyondBoundary x y z = (x\<^sup>2 + y\<^sup>2 + z\<^sup>2 > 64)"
proof -
  have "sqrt 64 = 8" by (rule real_sqrt_unique) simp_all
  then have "(8 < sqrt (x\<^sup>2 + y\<^sup>2 + z\<^sup>2)) = (sqrt 64 < sqrt (x\<^sup>2 + y\<^sup>2 + z\<^sup>2))"
    by simp
  also have "\<dots> = (64 < x\<^sup>2 + y\<^sup>2 + z\<^sup>2)"
    by (rule real_sqrt_less_iff)
  finally show ?thesis by (simp add: beyondBoundary_def)
qed

lemma updateParticle_frame:
  "originalColors (updateParticle ad rnd i ps) = originalColors ps"
  "targetPositions (updateParticle ad rnd i ps) = targetPositions ps"
  "velocities (updateParticle ad rnd i ps) = velocities ps"
  "morphSpeed (updateParticle ad rnd i ps) = morphSpeed ps"
  "morphDirection (updateParticle ad rnd i ps) = morphDirection ps"
  "morphTarget (updateParticle ad rnd i ps) = morphTarget ps"
  by (simp_all add: updateParticle_def Let_def)

lemma updateParticle_morphFactors:
  "morphFactors (updateParticle ad rnd i ps) =
     (morphFactors ps)[i := morphFactors ps ! i
        + ((if morphDirection ps > 0 then 1 else 0) - morphFactors ps ! i) * morphSpeed ps]"
  by (simp add: updateParticle_def Let_def)

lemma fold_updateParticle_frame:
  "originalColors (fold (updateParticle ad rnd) is ps) = originalColors ps
   \<and> targetPositions (fold (updateParticle ad rnd) is ps) = targetPositions ps
   \<and> velocities (fold (updateParticle ad rnd) is ps) = velocities ps
   \<and> morphSpeed (fold (updateParticle ad rnd) is ps) = morphSpeed ps
   \<and> morphDirection (fold (updateParticle ad rnd) is ps) = morphDirection ps
   \<and> morphTarget (fold (updateParticle ad rnd) is ps) = morphTarget ps"
  by (induction "is" arbitrary: ps) (simp_all add: updateParticle_frame)

lemma update_morph_consts:
  "morphSpeed (ParticleSystem_update ad rnd ps) = morphSpeed ps
   \<and> morphTarget (ParticleSystem_update ad rnd ps) = morphTarget ps"
  by (simp add: ParticleSystem_update_def Let_def fold_updateParticle_frame)

text \<open>One step of the per-particle blend stays in [0,1] when the speed is in [0,1].\<close>

lemma morph_step_unit:
  assumes "0 \<le> (s::real)" "s \<le> 1" "0 \<le> m" "m \<le> 1" "g = 0 \<or> g = 1"
  shows "0 \<le> m + (g - m) * s \<and> m + (g - m) * s \<le> 1"
proof -
  have e: "m + (g - m) * s = m * (1 - s) + g * s" by (simp add: algebra_simps)
  have "m * (1 - s) \<le> 1 * (1 - s)" using assms by (intro mult_right_mono) simp_all
  moreover have "g * s \<le> 1 * s" using assms by (intro mult_right_mono) auto
  moreover have "0 \<le> m * (1 - s)" "0 \<le> g * s" using assms by auto
  ultimately show ?thesis unfolding e by simp
qed

lemma unitList_update: "unitList xs \<Longrightarrow> 0 \<le> v \<Longrightarrow> v \<le> 1 \<Longrightarrow> unitList (xs[i := v])"
  using set_update_subset_insert [of xs i v] by (auto simp: unitList_def)

lemma updateParticle_unit:
  assumes "0 \<le> morphSpeed ps" "morphSpeed ps \<le> 1" "unitList (morphFactors ps)"
  shows "unitList (morphFactors (updateParticle ad rnd i ps))"
proof (cases "i < length (morphFactors ps)")
  case False
  with assms show ?thesis by (simp add: updateParticle_morphFactors list_update_beyond not_less)
next
  case True
  with assms(3) have m: "0 \<le> morphFactors ps ! i" "morphFactors ps ! i \<le> 1"
    by (simp_all add: unitList_def)
  let ?g = "if morphDirection ps > 0 then 1 else (0::real)"
  have "?g = 0 \<or> ?g = 1" by simp
  from morph_step_unit [OF assms(1,2) m this] assms(3) show ?thesis
    unfolding updateParticle_morphFactors by (intro unitList_update) simp_all
qed

lemma fold_updateParticle_unit:
  "0 \<le> morphSpeed ps \<Longrightarrow> morphSpeed ps \<le> 1 \<Longrightarrow> unitList (morphFactors ps)
     \<Longrightarrow> unitList (morphFactors (fold (updateParticle ad rnd) is ps))"
  by (induction "is" arbitrary: ps) (simp_all add: updateParticle_unit updateParticle_frame)

lemma update_unitList:
  assumes "0 \<le> morphSpeed ps" "morphSpeed ps \<le> 1" "unitList (morphFactors ps)"
  shows "unitList (morphFactors (ParticleSystem_update ad rnd ps))"
  using assms by (simp add: ParticleSystem_update_def Let_def fold_updateParticle_unit)

lemma ticks_unitList:
  "0 \<le> morphSpeed ps \<Longrightarrow> morphSpeed ps \<le> 1 \<Longrightarrow> unitList (morphFactors ps)
     \<Longrightarrow> unitList (morphFactors (ParticleSystem_ticks frames ps))"
  by (induction frames ps rule: ParticleSystem_ticks.induct)
     (simp_all add: update_unitList update_morph_consts)

lemma ticks_morphTarget: "morphTarget (ParticleSystem_ticks frames ps) = morphTarget ps"
  by (induction frames ps rule: ParticleSystem_ticks.induct) (simp_all add: update_morph_consts)

lemma oneParticle_fields:
  "particles oneParticle" "particleCount oneParticle = 1" "morphFactors oneParticle = [0]"
  "morphSpeed oneParticle = 2 / 100" "morphDirection oneParticle = 1"
  "originalColors oneParticle = [1, 1, 1]" "targetPositions oneParticle = [0, 0, 0]"
  "velocities oneParticle = [0, 0, 0]" "modelVertices oneParticle = []"
  "morphPauseFrames oneParticle = 0"
  by (simp_all add: oneParticle_def)

lemma update_morphFactors_one:
  assumes "particles ps" "particleCount ps = 1" "\<not> ad_isBeat ad"
  shows "morphFactors (ParticleSystem_update ad rnd ps)
     = (morphFactors ps)[0 := morphFactors ps ! 0
          + ((if morphDirection ps > 0 then 1 else 0) - morphFactors ps ! 0) * morphSpeed ps]"
  using assms by (simp add: ParticleSystem_update_def Let_def updateParticle_morphFactors)

section \<open>The morph state of the plexus system (ParticleSystem.js)\<close>

lemma morphUpdateLogic_keeps:
  "params_morphSpeed (morphUpdateLogic ps) = params_morphSpeed ps
   \<and> modelPositions (morphUpdateLogic ps) = modelPositions ps"
  by (simp add: morphUpdateLogic_def Let_def)

lemma autoMorphOnBeatLogic_keeps:
  "params_morphSpeed (autoMorphOnBeatLogic inp ps) = params_morphSpeed ps
   \<and> modelPositions (autoMorphOnBeatLogic inp ps) = modelPositions ps
   \<and> morphTargetP (autoMorphOnBeatLogic inp ps) = morphTargetP ps"
  by (simp add: autoMorphOnBeatLogic_def toggleMorphP_def)

lemma morphLayoutHandling_keeps:
  "params_morphSpeed (morphLayoutHandling inp ps) = params_morphSpeed ps
   \<and> modelPositions (morphLayoutHandling inp ps) = modelPositions ps
   \<and> morphTargetP (morphLayoutHandling inp ps) = morphTargetP ps"
  by (simp add: morphLayoutHandling_def Let_def)

lemma updateMorphTargetFactor_keeps:
  "params_morphSpeed (updateMorphTargetFactor ps) = params_morphSpeed ps
   \<and> modelPositions (updateMorphTargetFactor ps) = modelPositions ps
   \<and> morphDirectionP (updateMorphTargetFactor ps) = morphDirectionP ps"
  by (simp add: updateMorphTargetFactor_def)

lemma updateMorph_keeps:
  "params_morphSpeed (updateMorph inp ps) = params_morphSpeed ps
   \<and> modelPositions (updateMorph inp ps) = modelPositions ps"
  by (simp add: updateMorph_def updateMorphTargetFactor_keeps morphLayoutHandling_keeps
      autoMorphOnBeatLogic_keeps morphUpdateLogic_keeps)

lemma updateMorph_no_model:
  "modelPositions ps = None \<Longrightarrow> morphTargetP (updateMorph inp ps) = Some 0"
  by (simp add: updateMorph_def updateMorphTargetFactor_def morphLayoutHandling_keeps
      autoMorphOnBeatLogic_keeps morphUpdateLogic_keeps)

lemma updateMorph_ticks_no_model:
  "modelPositions ps = None \<Longrightarrow> inps \<noteq> [] \<Longrightarrow>
     morphTargetP (updateMorph_ticks inps ps) = Some 0
     \<and> modelPositions (updateMorph_ticks inps ps) = None"
proof (induction inps ps rule: updateMorph_ticks.induct)
  case (1 ps)
  then show ?case by simp
next
  case (2 inp inps ps)
  show ?case
  proof (cases inps)
    case Nil
    with 2 show ?thesis by (simp add: updateMorph_no_model updateMorph_keeps)
  next
    case (Cons a list)
    with 2 show ?thesis by (simp add: updateMorph_keeps)
  qed
qed

text \<open>
  What the undefined \<open>params.morphSpeed\<close> does once a model is loaded: the first block
  of \<open>update\<close> adds \<open>morphDirection * undefined\<close> to the morph scalar, and the scalar is
  NaN from then on (the clamp keeps NaN).
\<close>

lemma setModel_morph_state:
  "vertices \<noteq> [] \<Longrightarrow>
     morphTargetP (setModel rv rx ry rz (Some vertices) ps) = Some (1 / 100)
     \<and> morphDirectionP (setModel rv rx ry rz (Some vertices) ps) = 1
     \<and> modelPositions (setModel rv rx ry rz (Some vertices) ps) \<noteq> None
     \<and> params_morphSpeed (setModel rv rx ry rz (Some vertices) ps) = params_morphSpeed ps"
  by (simp add: setModel_def)

lemma morphTarget_NaN_after_setModel:
  assumes "params_morphSpeed ps = None" "vertices \<noteq> []"
  shows "morphTargetP (updateMorph inp (setModel rv rx ry rz (Some vertices) ps)) = None"
proof -
  let ?s = "setModel rv rx ry rz (Some vertices) ps"
  from setModel_morph_state [OF assms(2), of rv rx ry rz ps] assms(1)
  have s: "morphTargetP ?s = Some (1 / 100)" "morphDirectionP ?s = 1" "modelPositions ?s \<noteq> None"
    "params_morphSpeed ?s = None" by simp_all
  have 1: "morphTargetP (morphUpdateLogic ?s) = None"
    by (simp add: morphUpdateLogic_def Let_def s num_add_def num_mul_def num_ge_def num_le_def)
  have 2: "morphTargetP (morphLayoutHandling inp (autoMorphOnBeatLogic inp (morphUpdateLogic ?s))) = None"
    by (simp add: morphLayoutHandling_keeps autoMorphOnBeatLogic_keeps 1)
  have 3: "modelPositions (morphLayoutHandling inp (autoMorphOnBeatLogic inp (morphUpdateLogic ?s))) \<noteq> None"
    by (simp add: morphLayoutHandling_keeps autoMorphOnBeatLogic_keeps morphUpdateLogic_keeps s)
  show ?thesis
    unfolding updateMorph_def updateMorphTargetFactor_def using 2 3
    by (simp add: num_add_def clamp_def)
qed

text \<open>
  C2. Morph factor boundedness. As stated (every morph speed) the property fails for the
  per-particle factors: \<open>morphs[i] += (morphGoal - morphs[i]) * morphSpeed\<close> has no clamp,
  so with speed 2 and direction +1 a factor of 0 is 2 after one tick.
\<close>

theorem morph_factor_overshoots:
  "morphDirection (setMorphSpeed 2 oneParticle) = 1
   \<and> morphFactors (setMorphSpeed 2 oneParticle) = [0]
   \<and> morphFactors (ParticleSystem_update silentAudio noDraw (setMorphSpeed 2 oneParticle)) = [2]"
proof -
  have "morphFactors (ParticleSystem_update silentAudio noDraw (setMorphSpeed 2 oneParticle)) = [2]"
    by (subst update_morphFactors_one)
       (simp_all add: setMorphSpeed_def oneParticle_fields silentAudio_def)
  then show ?thesis by (simp add: setMorphSpeed_def oneParticle_fields)
qed

text \<open>
  C2, amended: for every direction and every morph speed in [0,1], per-particle morph
  factors that are in [0,1] stay in [0,1] over any number of ticks of \<open>update\<close>
  (part_000), and no tick changes that class's shared scalar \<open>morphTarget\<close>; in
  ParticleSystem.js, while no model is loaded, the shared scalar is in [0,1] (it is 0)
  after any number of ticks, for every speed and direction. What the scalar of
  ParticleSystem.js is once a model is loaded is not part of this statement (see
  \<open>morphTarget_NaN_after_setModel\<close>).
\<close>

theorem morph_factor_bounded:
  "(0 \<le> morphSpeed ps \<and> morphSpeed ps \<le> 1 \<and> unitList (morphFactors ps)
      \<longrightarrow> unitList (morphFactors (ParticleSystem_ticks frames ps)))
   \<and> morphTarget (ParticleSystem_ticks frames ps) = morphTarget ps
   \<and> (modelPositions px = None \<and> inps \<noteq> []
      \<longrightarrow> unitNum (morphTargetP (updateMorph_ticks inps px)))"
  by (simp add: ticks_unitList ticks_morphTarget updateMorph_ticks_no_model unitNum_def)

theorem morph_factor_bounded_witness:
  "unitList (morphFactors (ParticleSystem_ticks twoTicks oneParticle))
   \<and> morphTarget (ParticleSystem_ticks twoTicks oneParticle) = 0
   \<and> unitNum (morphTargetP (updateMorph_ticks [calmInput, calmInput] Plexus_constructor))"
proof -
  have a: "0 \<le> morphSpeed oneParticle \<and> morphSpeed oneParticle \<le> 1
      \<and> unitList (morphFactors oneParticle)"
    by (simp add: oneParticle_fields unitList_def)
  have b: "modelPositions Plexus_constructor = None \<and> [calmInput, calmInput] \<noteq> []"
    by (simp add: Plexus_constructor_def)
  have c: "morphTarget oneParticle = 0" by (simp add: oneParticle_def)
  from morph_factor_bounded [of oneParticle twoTicks Plexus_constructor "[calmInput, calmInput]"]
    a b c
  show ?thesis by simp
qed

text \<open>
  C10. Frame condition of the per-frame update: a call of \<open>update\<close> leaves the arrays
  \<open>originalColors\<close>, \<open>targetPositions\<close> and \<open>velocities\<close> as they were.
\<close>

theorem update_frame_condition:
  "originalColors (ParticleSystem_update ad rnd ps) = originalColors ps
   \<and> targetPositions (ParticleSystem_update ad rnd ps) = targetPositions ps
   \<and> velocities (ParticleSystem_update ad rnd ps) = velocities ps"
  by (simp add: ParticleSystem_update_def Let_def fold_updateParticle_frame)

theorem update_frame_condition_witness:
  "originalColors (ParticleSystem_update silentAudio noDraw oneParticle) = [1, 1, 1]
   \<and> targetPositions (ParticleSystem_update silentAudio noDraw oneParticle) = [0, 0, 0]
   \<and> velocities (ParticleSystem_update silentAudio noDraw oneParticle) = [0, 0, 0]"
  using update_frame_condition [of silentAudio noDraw oneParticle]
  by (simp add: oneParticle_fields)

lemma Plexus_constructor_fields:
  "params_morphSpeed Plexus_constructor = None" "modelPositions Plexus_constructor = None"
  "morphTargetP Plexus_constructor = Some 0" "morphDirectionP Plexus_constructor = - 1"
  "params_autoMorph Plexus_constructor = False" "autoMorphOnBeatP Plexus_constructor = True"
  "morphPauseFramesP Plexus_constructor = 0" "morphSpeedP Plexus_constructor = 2 / 100"
  by (simp_all add: Plexus_constructor_def)

lemma updateMorph_calm_direction:
  assumes "\<not> params_autoMorph ps"
  shows "morphDirectionP (updateMorph calmInput ps) = morphDirectionP (morphUpdateLogic ps)"
proof -
  have a: "params_autoMorph (morphUpdateLogic ps) = params_autoMorph ps"
    by (simp add: morphUpdateLogic_def Let_def)
  have b: "autoMorphOnBeatLogic calmInput (morphUpdateLogic ps) = morphUpdateLogic ps"
    using assms by (simp add: autoMorphOnBeatLogic_def a)
  have c: "morphDirectionP (morphLayoutHandling calmInput (morphUpdateLogic ps))
      = morphDirectionP (morphUpdateLogic ps)"
    by (simp add: morphLayoutHandling_def Let_def calmInput_def)
  show ?thesis by (simp add: updateMorph_def b c updateMorphTargetFactor_keeps)
qed

text \<open>
  C7. \<open>toggleMorph\<close> and the morph position. The class declares \<open>toggleMorph\<close> twice; the
  declaration that looks at the position (line 348) is replaced by the later one
  (line 407), which only negates the direction. Right after a model is set the morph
  scalar is 0.01 and the direction +1: the effective method turns the direction to -1,
  where the specification (and the first declaration) heads towards 1. The last three
  conjuncts show the same split in a state where \<open>params.morphSpeed\<close> holds a number (a
  state no method of the class makes, see \<open>morphingPlexus\<close>): there a morph that has
  reached its end has direction 0, and the effective method leaves it 0.
\<close>

theorem toggleMorph_ignores_position:
  "morphTargetP (setModel noDraw noDraw noDraw noDraw (Some oneVertex) Plexus_constructor) = Some (1 / 100)
   \<and> morphDirectionP (toggleMorphP (setModel noDraw noDraw noDraw noDraw (Some oneVertex) Plexus_constructor)) = - 1
   \<and> morphDirectionP (toggleMorph_first (setModel noDraw noDraw noDraw noDraw (Some oneVertex) Plexus_constructor)) = 1
   \<and> morphTargetP (updateMorph calmInput (morphingPlexus\<lparr>morphTargetP := Some (99 / 100)\<rparr>)) = Some 1
   \<and> morphDirectionP (toggleMorphP (updateMorph calmInput (morphingPlexus\<lparr>morphTargetP := Some (99 / 100)\<rparr>))) = 0
   \<and> morphDirectionP (toggleMorph_first (updateMorph calmInput (morphingPlexus\<lparr>morphTargetP := Some (99 / 100)\<rparr>))) = - 1"
proof -
  let ?s = "setModel noDraw noDraw noDraw noDraw (Some oneVertex) Plexus_constructor"
  let ?m = "morphingPlexus\<lparr>morphTargetP := Some (99 / 100)\<rparr>"
  have s: "morphTargetP ?s = Some (1 / 100)" "morphDirectionP ?s = 1"
    using setModel_morph_state [of oneVertex noDraw noDraw noDraw noDraw Plexus_constructor]
    by (simp_all add: oneVertex_def)
  have l: "morphUpdateLogic ?m = ?m\<lparr>morphTargetP := Some 1, morphDirectionP := 0\<rparr>"
    by (simp add: morphUpdateLogic_def Let_def morphingPlexus_def num_add_def num_mul_def num_ge_def)
  have c: "\<not> params_autoMorph ?m" by (simp add: morphingPlexus_def)
  have d: "morphDirectionP (updateMorph calmInput ?m) = 0"
    by (simp add: updateMorph_calm_direction [OF c] l)
  have a: "autoMorphOnBeatLogic calmInput (morphUpdateLogic ?m) = morphUpdateLogic ?m"
    by (simp add: autoMorphOnBeatLogic_def l, simp add: morphingPlexus_def)
  have h: "morphLayoutHandling calmInput (morphUpdateLogic ?m) = morphUpdateLogic ?m"
    by (simp add: morphLayoutHandling_def Let_def calmInput_def l, simp add: morphingPlexus_def)
  have t: "morphTargetP (updateMorph calmInput ?m) = Some 1"
    by (simp add: updateMorph_def a h, simp add: l updateMorphTargetFactor_def clamp_def
        num_add_def, simp add: morphingPlexus_def)
  show ?thesis
    by (simp add: s d t toggleMorphP_def toggleMorph_first_def num_ge_def)
qed

text \<open>
  C8. No shape, no-op. As stated the property fails in the clause on the direction: with
  no model loaded a tick of \<open>update\<close> resets the morph scalar to 0 but leaves the
  direction alone. After one \<open>toggleMorph()\<close> on a new system the direction is +1 and is
  still +1 after the tick, whether \<open>params.morphSpeed\<close> is undefined or a number.
\<close>

theorem no_shape_direction_kept:
  "modelPositions (toggleMorphP Plexus_constructor) = None
   \<and> morphTargetP (updateMorph calmInput (toggleMorphP Plexus_constructor)) = Some 0
   \<and> morphDirectionP (updateMorph calmInput (toggleMorphP Plexus_constructor)) = 1
   \<and> morphDirectionP (updateMorph calmInput
        ((toggleMorphP Plexus_constructor)\<lparr>params_morphSpeed := Some (2 / 100)\<rparr>)) = 1"
proof -
  let ?s = "toggleMorphP Plexus_constructor"
  let ?t = "?s\<lparr>params_morphSpeed := Some (2 / 100)\<rparr>"
  have m: "modelPositions ?s = None"
    by (simp add: toggleMorphP_def Plexus_constructor_fields)
  have 1: "morphDirectionP (morphUpdateLogic ?s) = 1"
    by (simp add: morphUpdateLogic_def Let_def toggleMorphP_def Plexus_constructor_fields
        num_add_def num_mul_def num_ge_def num_le_def)
  have 2: "morphDirectionP (morphUpdateLogic ?t) = 1"
    by (simp add: morphUpdateLogic_def Let_def toggleMorphP_def Plexus_constructor_fields
        num_add_def num_mul_def num_ge_def num_le_def)
  have c: "\<not> params_autoMorph ?s" "\<not> params_autoMorph ?t"
    by (simp_all add: toggleMorphP_def Plexus_constructor_fields)
  have "morphDirectionP (updateMorph calmInput ?s) = 1"
    by (simp only: updateMorph_calm_direction [OF c(1)] 1)
  moreover have "morphDirectionP (updateMorph calmInput ?t) = 1"
    by (simp only: updateMorph_calm_direction [OF c(2)] 2)
  ultimately show ?thesis using m updateMorph_no_model [OF m, of calmInput] by simp
qed

text \<open>
  C8, amended: a shape with zero sampled points makes target-shape assignment a no-op
  (\<open>_buildTargetPositions\<close> of part_000 returns the system as it is, \<open>setModel\<close> of
  ParticleSystem.js leaves the model positions and the morph state as they are, and
  neither indexes the empty point set); while no model is loaded, every tick of \<open>update\<close>
  leaves the morph scalar at 0. The direction is not forced to 0.
\<close>

theorem no_shape_noop:
  "(modelVertices ps = [] \<longrightarrow> buildTargetPositions rv rx ry rz ps = ps)
   \<and> setModel rv rx ry rz (Some []) px = px
   \<and> (modelPositions px = None \<and> inps \<noteq> []
        \<longrightarrow> morphTargetP (updateMorph_ticks inps px) = Some 0
            \<and> modelPositions (updateMorph_ticks inps px) = None)"
  by (simp add: buildTargetPositions_def setModel_def updateMorph_ticks_no_model)

theorem no_shape_noop_witness:
  "buildTargetPositions noDraw noDraw noDraw noDraw oneParticle = oneParticle
   \<and> setModel noDraw noDraw noDraw noDraw (Some []) Plexus_constructor = Plexus_constructor
   \<and> morphTargetP (updateMorph_ticks [calmInput, calmInput] Plexus_constructor) = Some 0"
proof -
  have a: "modelVertices oneParticle = []" by (simp add: oneParticle_fields)
  have b: "modelPositions Plexus_constructor = None \<and> [calmInput, calmInput] \<noteq> []"
    by (simp add: Plexus_constructor_fields)
  from no_shape_noop [of oneParticle noDraw noDraw noDraw noDraw Plexus_constructor
      "[calmInput, calmInput]"] a b
  show ?thesis by blast
qed

section \<open>Curl noise\<close>

lemma vlength_zero_iff: "vlength v = 0 \<longleftrightarrow> v = Vector3 0 0 0"
proof
  assume "vlength v = 0"
  then have "vx v * vx v + vy v * vy v + vz v * vz v = 0"
    by (simp add: vlength_def)
  then have "vx v = 0 \<and> vy v = 0 \<and> vz v = 0"
    by (metis add_nonneg_eq_0_iff mult_eq_0_iff zero_le_square add_nonneg_nonneg)
  then show "v = Vector3 0 0 0" by (cases v) simp
next
  assume "v = Vector3 0 0 0"
  then show "vlength v = 0" by (simp add: vlength_def)
qed

lemma normalize_zero: "normalize (Vector3 0 0 0) = Some (Vector3 0 0 0)"
  by (simp add: normalize_def divideScalar_def vlength_def)

text \<open>
  What the guard \<open>|| 1\<close> of \<open>normalize()\<close> is for: dividing the zero vector by its own
  length gives no finite vector.
\<close>

lemma divideScalar_by_zero_length:
  "divideScalar (Vector3 0 0 0) (vlength (Vector3 0 0 0)) = None"
  by (simp add: divideScalar_def vlength_def)

lemma normalize_unit:
  assumes "v \<noteq> Vector3 0 0 0"
  shows "\<exists>w. normalize v = Some w \<and> vlength w = 1"
proof -
  let ?l = "vlength v"
  have l0: "?l \<noteq> 0" using assms by (simp add: vlength_zero_iff)
  have sq: "?l * ?l = vx v * vx v + vy v * vy v + vz v * vz v"
    by (simp add: vlength_def add_nonneg_nonneg)
  have "vx v * (1 / ?l) * (vx v * (1 / ?l)) + vy v * (1 / ?l) * (vy v * (1 / ?l))
        + vz v * (1 / ?l) * (vz v * (1 / ?l))
        = (vx v * vx v + vy v * vy v + vz v * vz v) / (?l * ?l)"
    by (simp add: add_divide_distrib)
  also have "\<dots> = 1" unfolding sq [symmetric] using l0 by simp
  finally have "vlength (Vector3 (vx v * (1 / ?l)) (vy v * (1 / ?l)) (vz v * (1 / ?l))) = 1"
    by (simp add: vlength_def [of "Vector3 _ _ _"])
  then show ?thesis using l0 by (simp add: normalize_def divideScalar_def)
qed

lemma curlVector_rampNoise:
  "curlVector rampNoise (Vector3 0 0 0) = Vector3 (2 / 10000000) 0 (- (2 / 10000000))"
  by (simp add: curlVector_def rampNoise_def Let_def)

lemma curlVector_flatNoise: "curlVector flatNoise p = Vector3 0 0 0"
  by (simp add: curlVector_def flatNoise_def Let_def)

text \<open>
  C9. Curl-noise near-zero clamp. As stated the property fails: \<open>curlNoise\<close> has no epsilon;
  it calls \<open>normalize()\<close> on whatever vector the differences give. For the noise field
  \<open>rampNoise\<close> the curl vector at the origin is shorter than 0.00001 and the result is
  a finite vector other than the zero vector (it has length 1).
\<close>

theorem curlNoise_small_vector_normalized:
  "vlength (curlVector rampNoise (Vector3 0 0 0)) < 1 / 100000
   \<and> curlNoise rampNoise (Vector3 0 0 0) \<noteq> Some (Vector3 0 0 0)
   \<and> curlNoise rampNoise (Vector3 0 0 0) \<noteq> None"
proof -
  have "vlength (curlVector rampNoise (Vector3 0 0 0)) < 1 / 100000"
    unfolding curlVector_rampNoise vlength_def
    by (rule real_less_lsqrt) (simp_all add: power2_eq_square)
  moreover obtain w where w: "curlNoise rampNoise (Vector3 0 0 0) = Some w" "vlength w = 1"
    unfolding curlNoise_def
    using normalize_unit [of "curlVector rampNoise (Vector3 0 0 0)"]
    by (auto simp: curlVector_rampNoise)
  moreover from w(2) have "w \<noteq> Vector3 0 0 0" by (auto simp: vlength_def)
  ultimately show ?thesis by simp
qed

text \<open>
  C9, amended: \<open>curlNoise\<close> has no epsilon test of its own; it hands the curl vector to
  three.js's \<open>normalize()\<close>, which divides by \<open>length() || 1\<close>. For every noise field
  with finite values and every point the result is a vector of finite components (no
  division by zero happens): the zero vector when the curl vector is exactly zero, and
  a vector of length 1 for every other curl vector, however short. (Over the reals; the
  rounding, overflow and underflow of doubles are not modelled.)
\<close>

theorem curlNoise_zero_or_unit:
  "\<exists>w. curlNoise noise p = Some w
     \<and> (curlVector noise p = Vector3 0 0 0 \<longrightarrow> w = Vector3 0 0 0)
     \<and> (curlVector noise p \<noteq> Vector3 0 0 0 \<longrightarrow> vlength w = 1)"
proof (cases "curlVector noise p = Vector3 0 0 0")
  case True
  then show ?thesis by (simp add: curlNoise_def normalize_zero)
next
  case False
  from normalize_unit [OF False] obtain w where "normalize (curlVector noise p) = Some w"
    "vlength w = 1" by blast
  with False show ?thesis by (simp add: curlNoise_def)
qed

theorem curlNoise_zero_or_unit_witness:
  "curlNoise flatNoise (Vector3 0 0 0) = Some (Vector3 0 0 0)
   \<and> (\<exists>w. curlNoise rampNoise (Vector3 0 0 0) = Some w \<and> vlength w = 1)"
proof -
  have a: "curlVector flatNoise (Vector3 0 0 0) = Vector3 0 0 0"
    by (rule curlVector_flatNoise)
  have b: "curlVector rampNoise (Vector3 0 0 0) \<noteq> Vector3 0 0 0"
    by (simp add: curlVector_rampNoise)
  from curlNoise_zero_or_unit [of flatNoise "Vector3 0 0 0"] a
    curlNoise_zero_or_unit [of rampNoise "Vector3 0 0 0"] b
  show ?thesis by auto
qed

end
